theory Spec2Isabelle
  imports Main "HOL-Library.AList"
begin

text \<open>
  The real-time core of the collaborative whiteboard server: the whiteboard document and
  its socket handlers, the per-event rate limiter, the presence store, the room and
  connection handlers and the chat relay. Each handler is a function from the arguments
  its listener is called with, the time and the stores to the new stores and the list of
  events it emitted. Element payloads, view state and files are opaque; times are
  milliseconds.
\<close>

section \<open>Connections, identities and emitted events\<close>

text \<open>
  The identity attached to a connection (\<^verbatim>\<open>socket.data.user\<close>) and the part of a
  Socket.IO connection the handlers read and write: its id, the channels it has joined
  (\<^verbatim>\<open>socket.rooms\<close>), and the two fields the room and connection handlers keep in
  \<^verbatim>\<open>socket.data\<close>.
\<close>

type_synonym json = string

record user =
  user_id :: string
  user_name :: string
  user_avatar :: "string option"
  user_plan :: "string option"
  isAnonymous :: bool

record socket =
  sock_id :: string
  sock_user :: "user option"
  sock_rooms :: "string list"
  currentRoom :: "string option"
  disconnectingRooms :: "string list option"

text \<open>
  \<^verbatim>\<open>const userId = socket.data.user?.id; if (!userId) ...\<close>: the id is unusable when
  there is no user or the id is the empty string.
\<close>

definition userId_of :: "socket \<Rightarrow> string option" where
  "userId_of s =
     (case sock_user s of
        None \<Rightarrow> None
      | Some u \<Rightarrow> if user_id u = [] then None else Some (user_id u))"

text \<open>
  What a handler sends. \<^verbatim>\<open>socket.emit\<close> goes to the calling connection,
  \<^verbatim>\<open>socket.to(room).emit\<close> to the connections in the channel other than the calling
  one, \<^verbatim>\<open>io.to(room).emit\<close> to every connection in the channel.
\<close>

datatype target =
    ToSelf string
  | ToOthers string string
  | ToAll string

text \<open>
  An element of the drawing: its \<^verbatim>\<open>id\<close>, its \<^verbatim>\<open>type\<close>, the identity in its
  \<^verbatim>\<open>customData\<close> (\<^verbatim>\<open>customData?.userId\<close>, set on sticky notes), the \<^verbatim>\<open>userId\<close> and
  \<^verbatim>\<open>timestamp\<close> the element handlers stamp on it, and the rest of it.
\<close>

record element =
  el_id :: string
  el_type :: string
  el_data :: json
  el_customUserId :: "string option"
  el_userId :: "string option"
  el_timestamp :: "int option"

record sticky_note =
  note_id :: string
  note_rest :: json

record presence_data =
  pd_id :: string
  pd_name :: string
  pd_avatar :: "string option"
  pd_socketId :: string
  pd_joinedAt :: int
  pd_lastActivity :: int

record whiteboardState =
  ws_elements :: "element list"
  ws_appState :: json
  ws_files :: json
  ws_version :: int

text \<open>
  The payload of each event, its fields in the order of the source's object literal.
  Fields that only carry the clock (\<^verbatim>\<open>timestamp: new Date().toISOString()\<close>) are left
  out. \<open>PError\<close> is \<^verbatim>\<open>{code, message}\<close>; \<open>PJoinError\<close> and \<open>PLimitError\<close> are the
  two shapes of \<^verbatim>\<open>room:join-error\<close>, the second with \<^verbatim>\<open>current\<close>, \<^verbatim>\<open>limit\<close> and
  \<^verbatim>\<open>ownerPlan\<close>.
\<close>

datatype payload =
    PError string string
  | PJoinError string string
  | PLimitError string string nat int string
  | PWhiteboardUpdated string "element list" json json int string string nat
  | PElementCreated string element string int
  | PElementUpdated string element string int
  | PElementDeleted string string string int
  | PRoomJoined string "presence_data list" whiteboardState
  | PUserRestored string string string
  | PUserJoined string presence_data "string option" string
  | PUserOnline string
  | PUserOffline string string
  | PUserLeft string string "presence_data list"
  | PRoomLeft string
  | PRoomUsers string "presence_data list"
  | PChatMessage string string string string string
  | PChatError string
  | PStickyNoteUpdated sticky_note
  | PStickyNoteDeleted string

datatype emission = Emit target string payload

fun em_target :: "emission \<Rightarrow> target" where
  "em_target (Emit t e p) = t"

fun em_event :: "emission \<Rightarrow> string" where
  "em_event (Emit t e p) = e"

fun em_payload :: "emission \<Rightarrow> payload" where
  "em_payload (Emit t e p) = p"

text \<open>
  Delivery of an emission, given which connections are in which channel.
\<close>

fun recipients :: "(string \<Rightarrow> string set) \<Rightarrow> target \<Rightarrow> string set" where
  "recipients chan (ToSelf sid) = {sid}"
| "recipients chan (ToOthers room sid) = chan room - {sid}"
| "recipients chan (ToAll room) = chan room"

fun is_broadcast :: "emission \<Rightarrow> bool" where
  "is_broadcast (Emit (ToSelf sid) e p) = False"
| "is_broadcast (Emit (ToOthers room sid) e p) = True"
| "is_broadcast (Emit (ToAll room) e p) = True"

fun broadcast_room :: "emission \<Rightarrow> string option" where
  "broadcast_room (Emit (ToSelf sid) e p) = None"
| "broadcast_room (Emit (ToOthers room sid) e p) = Some room"
| "broadcast_room (Emit (ToAll room) e p) = Some room"

definition error_to :: "socket \<Rightarrow> string \<Rightarrow> string \<Rightarrow> emission" where
  "error_to s code msg = Emit (ToSelf (sock_id s)) ''error'' (PError code msg)"

text \<open>
  What a listener is called with. Socket.IO calls a listener registered with
  \<^verbatim>\<open>socket.on(event, listener)\<close> with the arguments the client sent with the event. A
  listener declared as \<^verbatim>\<open>async (data) => ...\<close> reads the connection from the enclosing
  scope. A listener declared as \<^verbatim>\<open>async (socket, data) => ...\<close> reads whatever its first
  argument is where it names a connection: \<open>Connection\<close> when it is called with a
  connection, as the parameter's type says; \<open>Payload\<close> when it is called with what a client
  sent, an object of the event's payload type, which has no \<^verbatim>\<open>emit\<close>, no \<^verbatim>\<open>data\<close> and no
  \<^verbatim>\<open>id\<close>; \<open>Undefined\<close> when the event was sent without payload.

  An \<^verbatim>\<open>async\<close> function returns a promise. \<open>Resolved\<close> carries what the body did;
  \<open>Thrown\<close> is the promise of a body whose \<^verbatim>\<open>catch\<close> block threw in its turn: the promise
  rejects, and the body emitted nothing and changed nothing before. Nobody awaits a
  listener's promise; what the process does with the rejection (\<^verbatim>\<open>index.ts\<close> installs an
  \<^verbatim>\<open>unhandledRejection\<close> handler that logs it and, outside development mode, shuts the
  server down) is not part of the model.
\<close>

datatype 'p arg = Connection socket | Payload 'p | Undefined

datatype 'r promise = Resolved 'r | Thrown

text \<open>What a call emitted, nothing when its promise rejected.\<close>

fun emitted :: "emission list promise \<Rightarrow> emission list" where
  "emitted (Resolved out) = out"
| "emitted Thrown = []"

section \<open>The whiteboard document (Whiteboard.model.ts)\<close>

text \<open>Source: \<^verbatim>\<open>src/models/Whiteboard.model.ts\<close>.\<close>

record snapshot =
  sn_elements :: "element list"
  sn_appState :: json
  sn_files :: json
  sn_timestamp :: int
  sn_userId :: "string option"
  sn_version :: int

record whiteboard =
  wb_roomId :: string
  wb_elements :: "element list"
  wb_appState :: json
  wb_files :: json
  wb_version :: int
  lastModifiedBy :: "string option"
  lastModifiedAt :: int
  snapshots :: "snapshot list"

text \<open>
  A document in memory, with the change tracking of the document library that
  \<^verbatim>\<open>isModified\<close> reads in the pre-save hook. A document returned by \<^verbatim>\<open>findOne\<close> has
  no modified path; assigning a path marks it when the new value differs from the old one;
  \<^verbatim>\<open>push\<close>, \<^verbatim>\<open>splice\<close> and an assignment to an index of the element array mark
  \<^verbatim>\<open>elements\<close>. Assigning \<^verbatim>\<open>version\<close>, \<^verbatim>\<open>lastModifiedBy\<close> or \<^verbatim>\<open>lastModifiedAt\<close> marks
  paths the hook does not look at. An assignment to a field of an element (the elements
  are of the schema's \<^verbatim>\<open>Mixed\<close> type) is not tracked: it marks nothing and is not
  written by \<^verbatim>\<open>save\<close>.
\<close>

record tracked =
  tdoc :: whiteboard
  mod_elements :: bool
  mod_appState :: bool
  mod_files :: bool

definition loaded :: "whiteboard \<Rightarrow> tracked" where
  "loaded wb = \<lparr>tdoc = wb, mod_elements = False, mod_appState = False, mod_files = False\<rparr>"

definition set_elements :: "element list \<Rightarrow> tracked \<Rightarrow> tracked" where
  "set_elements es t =
     t\<lparr>tdoc := (tdoc t)\<lparr>wb_elements := es\<rparr>,
       mod_elements := (mod_elements t \<or> es \<noteq> wb_elements (tdoc t))\<rparr>"

definition set_appState :: "json \<Rightarrow> tracked \<Rightarrow> tracked" where
  "set_appState a t =
     t\<lparr>tdoc := (tdoc t)\<lparr>wb_appState := a\<rparr>,
       mod_appState := (mod_appState t \<or> a \<noteq> wb_appState (tdoc t))\<rparr>"

definition set_files :: "json \<Rightarrow> tracked \<Rightarrow> tracked" where
  "set_files f t =
     t\<lparr>tdoc := (tdoc t)\<lparr>wb_files := f\<rparr>,
       mod_files := (mod_files t \<or> f \<noteq> wb_files (tdoc t))\<rparr>"

definition push_element :: "element \<Rightarrow> tracked \<Rightarrow> tracked" where
  "push_element e t =
     t\<lparr>tdoc := (tdoc t)\<lparr>wb_elements := wb_elements (tdoc t) @ [e]\<rparr>, mod_elements := True\<rparr>"

definition set_element_at :: "nat \<Rightarrow> element \<Rightarrow> tracked \<Rightarrow> tracked" where
  "set_element_at i e t =
     t\<lparr>tdoc := (tdoc t)\<lparr>wb_elements := (wb_elements (tdoc t))[i := e]\<rparr>, mod_elements := True\<rparr>"

definition bump_version :: "tracked \<Rightarrow> tracked" where
  "bump_version t = t\<lparr>tdoc := (tdoc t)\<lparr>wb_version := wb_version (tdoc t) + 1\<rparr>\<rparr>"

definition set_lastModifiedBy :: "string \<Rightarrow> tracked \<Rightarrow> tracked" where
  "set_lastModifiedBy u t = t\<lparr>tdoc := (tdoc t)\<lparr>lastModifiedBy := Some u\<rparr>\<rparr>"

definition set_lastModifiedAt :: "int \<Rightarrow> tracked \<Rightarrow> tracked" where
  "set_lastModifiedAt n t = t\<lparr>tdoc := (tdoc t)\<lparr>lastModifiedAt := n\<rparr>\<rparr>"

definition push_snapshot :: "snapshot \<Rightarrow> tracked \<Rightarrow> tracked" where
  "push_snapshot sn t = t\<lparr>tdoc := (tdoc t)\<lparr>snapshots := snapshots (tdoc t) @ [sn]\<rparr>\<rparr>"

text \<open>\<^verbatim>\<open>xs.slice(-50)\<close>: the last 50 entries, all of them when there are fewer.\<close>

definition slice_last :: "nat \<Rightarrow> 'a list \<Rightarrow> 'a list" where
  "slice_last n xs = drop (length xs - n) xs"

text \<open>\<^verbatim>\<open>WhiteboardSchema.pre('save', ...)\<close>, lines 98-124 of the model.\<close>

definition pre_save :: "int \<Rightarrow> tracked \<Rightarrow> whiteboard" where
  "pre_save now t =
     (let doc = tdoc t in
      if mod_elements t \<or> mod_appState t \<or> mod_files t then
        (let doc1 = doc\<lparr>wb_version := wb_version doc + 1, lastModifiedAt := now\<rparr> in
         if mod_elements t \<and> length (wb_elements doc1) > 10 then
           (let sn = \<lparr>sn_elements = wb_elements doc1, sn_appState = wb_appState doc1,
                      sn_files = wb_files doc1, sn_timestamp = now,
                      sn_userId = lastModifiedBy doc1, sn_version = wb_version doc1\<rparr>;
                doc2 = doc1\<lparr>snapshots := snapshots doc1 @ [sn]\<rparr>
            in if length (snapshots doc2) > 50
               then doc2\<lparr>snapshots := slice_last 50 (snapshots doc2)\<rparr>
               else doc2)
         else doc1)
      else doc)"

text \<open>
  The collection, one document per room, with a flag for whether the database answers:
  a call on a database that is down throws (\<open>None\<close>). The flag does not change while a
  handler runs. The map \<^verbatim>\<open>updateRateLimit\<close> of the whiteboard handler is kept beside it.
\<close>

record wb_world =
  docs :: "string \<rightharpoonup> whiteboard"
  db_up :: bool
  updateRateLimit :: "string \<rightharpoonup> int"

definition findOne :: "wb_world \<Rightarrow> string \<Rightarrow> whiteboard option option" where
  "findOne w roomId = (if db_up w then Some (docs w roomId) else None)"

definition save :: "wb_world \<Rightarrow> int \<Rightarrow> tracked \<Rightarrow> (wb_world \<times> whiteboard) option" where
  "save w now t =
     (if db_up w
      then (let d = pre_save now t in Some (w\<lparr>docs := (docs w)(wb_roomId d \<mapsto> d)\<rparr>, d))
      else None)"

text \<open>
  \<^verbatim>\<open>Whiteboard.create({roomId, elements: [], appState: {}, files: {}, version: 1,
  lastModifiedBy: userId})\<close>: a new document is saved, and every path given to the
  constructor counts as modified.
\<close>

definition create :: "wb_world \<Rightarrow> int \<Rightarrow> string \<Rightarrow> string \<Rightarrow> (wb_world \<times> whiteboard) option" where
  "create w now roomId userId =
     save w now
       \<lparr>tdoc = \<lparr>wb_roomId = roomId, wb_elements = [], wb_appState = ''{}'', wb_files = ''{}'',
                wb_version = 1, lastModifiedBy = Some userId, lastModifiedAt = now,
                snapshots = []\<rparr>,
        mod_elements = True, mod_appState = True, mod_files = True\<rparr>"

section \<open>Whiteboard handlers (whiteboard.handler.ts)\<close>

text \<open>Source: the second file kept in \<^verbatim>\<open>src/socket/handlers/sticky-note.handler.ts\<close>; line
  numbers are those of the file as kept.\<close>

text \<open>\<^verbatim>\<open>checkWhiteboardAccess\<close>: the result and what it emitted.\<close>

definition checkWhiteboardAccess :: "socket \<Rightarrow> string \<Rightarrow> wb_world \<Rightarrow> bool \<times> emission list" where
  "checkWhiteboardAccess s roomId w =
     (if roomId \<notin> set (sock_rooms s)
      then (False, [error_to s ''ACCESS_DENIED'' ''Access denied: Not a member of this room''])
      else (case findOne w roomId of
              None \<Rightarrow> (False, [error_to s ''ACCESS_CHECK_ERROR'' ''Access validation failed''])
            | Some found \<Rightarrow> (True, [])))"

definition auth_error :: "socket \<Rightarrow> emission" where
  "auth_error s = error_to s ''AUTH_ERROR'' ''User not authenticated''"

record update_data =
  ud_roomId :: string
  ud_elements :: "element list"
  ud_appState :: json
  ud_files :: "json option"

record element_data =
  ed_roomId :: string
  ed_element :: element

record delete_data =
  dd_roomId :: string
  dd_elementId :: string

text \<open>\<^verbatim>\<open>files || {}\<close>\<close>

definition files_or_empty :: "json option \<Rightarrow> json" where
  "files_or_empty f = (case f of None \<Rightarrow> ''{}'' | Some j \<Rightarrow> j)"

text \<open>\<^verbatim>\<open>updateRateLimit.get(userRateKey) || 0\<close>\<close>

definition lastUpdate_of :: "wb_world \<Rightarrow> string \<Rightarrow> int" where
  "lastUpdate_of w key = (case updateRateLimit w key of None \<Rightarrow> 0 | Some t \<Rightarrow> t)"

definition userRateKey :: "string \<Rightarrow> string \<Rightarrow> string" where
  "userRateKey userId roomId = userId @ ''-'' @ roomId"

text \<open>The \<^verbatim>\<open>whiteboard-update\<close> handler, lines 75-163.\<close>

definition whiteboard_update ::
  "socket \<Rightarrow> update_data option \<Rightarrow> int \<Rightarrow> wb_world \<Rightarrow> wb_world \<times> emission list" where
  "whiteboard_update s data now w =
     (let failed = error_to s ''WHITEBOARD_UPDATE_ERROR'' ''Failed to update whiteboard'' in
      case data of
        None \<Rightarrow> (w, [failed])
      | Some d \<Rightarrow>
     (case userId_of s of
        None \<Rightarrow> (w, [auth_error s])
      | Some userId \<Rightarrow>
     (case checkWhiteboardAccess s (ud_roomId d) w of
        (False, out) \<Rightarrow> (w, out)
      | (True, out) \<Rightarrow>
     (let key = userRateKey userId (ud_roomId d) in
      if now - lastUpdate_of w key < 100
      then (w, [error_to s ''RATE_LIMIT_ERROR'' ''Update rate limit exceeded''])
      else
     (let w1 = w\<lparr>updateRateLimit := (updateRateLimit w)(key \<mapsto> now)\<rparr> in
      case findOne w1 (ud_roomId d) of
        None \<Rightarrow> (w1, [failed])
      | Some found \<Rightarrow>
     (case (case found of
              Some wb \<Rightarrow> Some (w1, wb)
            | None \<Rightarrow> create w1 now (ud_roomId d) userId) of
        None \<Rightarrow> (w1, [failed])
      | Some (w2, wb) \<Rightarrow>
     (let t = set_lastModifiedAt now (set_lastModifiedBy userId (bump_version
                (set_files (files_or_empty (ud_files d)) (set_appState (ud_appState d)
                   (set_elements (ud_elements d) (loaded wb))))))
      in case save w2 now t of
           None \<Rightarrow> (w2, [failed])
         | Some (w3, saved) \<Rightarrow>
             (w3, [Emit (ToOthers (ud_roomId d) (sock_id s)) ''whiteboard-updated''
                     (PWhiteboardUpdated (ud_roomId d) (ud_elements d) (ud_appState d)
                        (files_or_empty (ud_files d)) (wb_version saved) userId (sock_id s)
                        (length (ud_elements d)))]))))))))"

text \<open>\<^verbatim>\<open>{...element, userId, timestamp: Date.now()}\<close>\<close>

definition stamp :: "element \<Rightarrow> string \<Rightarrow> int \<Rightarrow> element" where
  "stamp e userId now = e\<lparr>el_userId := Some userId, el_timestamp := Some now\<rparr>"

text \<open>The \<^verbatim>\<open>element-create\<close> handler, lines 208-264.\<close>

definition element_create ::
  "socket \<Rightarrow> element_data option \<Rightarrow> int \<Rightarrow> wb_world \<Rightarrow> wb_world \<times> emission list" where
  "element_create s data now w =
     (let failed = error_to s ''ELEMENT_CREATE_ERROR'' ''Failed to create element'' in
      case data of
        None \<Rightarrow> (w, [failed])
      | Some d \<Rightarrow>
     (case userId_of s of
        None \<Rightarrow> (w, [auth_error s])
      | Some userId \<Rightarrow>
     (case checkWhiteboardAccess s (ed_roomId d) w of
        (False, out) \<Rightarrow> (w, out)
      | (True, out) \<Rightarrow>
     (case findOne w (ed_roomId d) of
        None \<Rightarrow> (w, [failed])
      | Some None \<Rightarrow> (w, [])
      | Some (Some wb) \<Rightarrow>
     (let newElement = stamp (ed_element d) userId now;
          t = set_lastModifiedBy userId (bump_version (push_element newElement (loaded wb)))
      in case save w now t of
           None \<Rightarrow> (w, [failed])
         | Some (w1, saved) \<Rightarrow>
             (w1, [Emit (ToOthers (ed_roomId d) (sock_id s)) ''element-created''
                     (PElementCreated (ed_roomId d) newElement userId (wb_version saved))]))))))"

text \<open>\<^verbatim>\<open>findIndex\<close>: the first index whose entry satisfies the test, \<open>None\<close> for -1.\<close>

fun findIndex :: "('a \<Rightarrow> bool) \<Rightarrow> 'a list \<Rightarrow> nat option" where
  "findIndex P [] = None"
| "findIndex P (x # xs) =
     (if P x then Some 0 else (case findIndex P xs of None \<Rightarrow> None | Some i \<Rightarrow> Some (Suc i)))"

text \<open>The \<^verbatim>\<open>element-update\<close> handler, lines 267-327.\<close>

definition element_update ::
  "socket \<Rightarrow> element_data option \<Rightarrow> int \<Rightarrow> wb_world \<Rightarrow> wb_world \<times> emission list" where
  "element_update s data now w =
     (let failed = error_to s ''ELEMENT_UPDATE_ERROR'' ''Failed to update element'' in
      case data of
        None \<Rightarrow> (w, [failed])
      | Some d \<Rightarrow>
     (case userId_of s of
        None \<Rightarrow> (w, [auth_error s])
      | Some userId \<Rightarrow>
     (case checkWhiteboardAccess s (ed_roomId d) w of
        (False, out) \<Rightarrow> (w, out)
      | (True, out) \<Rightarrow>
     (case findOne w (ed_roomId d) of
        None \<Rightarrow> (w, [failed])
      | Some None \<Rightarrow> (w, [])
      | Some (Some wb) \<Rightarrow>
     (case findIndex (\<lambda>el. el_id el = el_id (ed_element d)) (wb_elements wb) of
        None \<Rightarrow> (w, [])
      | Some elementIndex \<Rightarrow>
     (let t = set_lastModifiedBy userId (bump_version
                (set_element_at elementIndex (stamp (ed_element d) userId now) (loaded wb)))
      in case save w now t of
           None \<Rightarrow> (w, [failed])
         | Some (w1, saved) \<Rightarrow>
             (w1, [Emit (ToOthers (ed_roomId d) (sock_id s)) ''element-updated''
                     (PElementUpdated (ed_roomId d) (wb_elements saved ! elementIndex) userId
                        (wb_version saved))])))))))"

text \<open>The \<^verbatim>\<open>element-delete\<close> handler, lines 330-382.\<close>

definition element_delete ::
  "socket \<Rightarrow> delete_data option \<Rightarrow> int \<Rightarrow> wb_world \<Rightarrow> wb_world \<times> emission list" where
  "element_delete s data now w =
     (let failed = error_to s ''ELEMENT_DELETE_ERROR'' ''Failed to delete element'' in
      case data of
        None \<Rightarrow> (w, [failed])
      | Some d \<Rightarrow>
     (case userId_of s of
        None \<Rightarrow> (w, [auth_error s])
      | Some userId \<Rightarrow>
     (case checkWhiteboardAccess s (dd_roomId d) w of
        (False, out) \<Rightarrow> (w, out)
      | (True, out) \<Rightarrow>
     (case findOne w (dd_roomId d) of
        None \<Rightarrow> (w, [failed])
      | Some None \<Rightarrow> (w, [])
      | Some (Some wb) \<Rightarrow>
     (let t = set_lastModifiedBy userId (bump_version
                (set_elements (filter (\<lambda>el. el_id el \<noteq> dd_elementId d) (wb_elements wb))
                   (loaded wb)))
      in case save w now t of
           None \<Rightarrow> (w, [failed])
         | Some (w1, saved) \<Rightarrow>
             (w1, [Emit (ToOthers (dd_roomId d) (sock_id s)) ''element-deleted''
                     (PElementDeleted (dd_roomId d) (dd_elementId d) userId
                        (wb_version saved))]))))))"

text \<open>
  The version a client is shown for a room: the document's, or 0 when the room has no
  document yet (\<^verbatim>\<open>whiteboard-load\<close>, lines 430-449).
\<close>

definition version_of :: "wb_world \<Rightarrow> string \<Rightarrow> int" where
  "version_of w roomId = (case docs w roomId of None \<Rightarrow> 0 | Some wb \<Rightarrow> wb_version wb)"

section \<open>The per-event rate limiter (socketRateLimit.middleware.ts)\<close>

text \<open>Source: \<^verbatim>\<open>src/middleware/socketRateLimit.middleware.ts\<close>.\<close>

text \<open>
  The counters the limiter keeps in the shared store: a count and, once \<^verbatim>\<open>pExpire\<close> has
  run, the time at which the key disappears. The limiter's keys (\<^verbatim>\<open>ratelimit:socket:...\<close>)
  are disjoint from the presence keys, so the counters are a component of their own.
  \<open>cs_replies\<close> says of each of the coming calls whether the store answers it (\<open>True\<close>) or
  the call throws; calls beyond the list are answered.
\<close>

record counter_store =
  cs_replies :: "bool list"
  cs_counters :: "string \<rightharpoonup> (nat \<times> int option)"

definition cs_call :: "counter_store \<Rightarrow> counter_store \<times> bool" where
  "cs_call cs =
     (case cs_replies cs of
        [] \<Rightarrow> (cs, True)
      | answered # later \<Rightarrow> (cs\<lparr>cs_replies := later\<rparr>, answered))"

definition counter_live :: "counter_store \<Rightarrow> string \<Rightarrow> int \<Rightarrow> bool" where
  "counter_live cs key now =
     (case cs_counters cs key of
        None \<Rightarrow> False
      | Some (n, None) \<Rightarrow> True
      | Some (n, Some expiry) \<Rightarrow> now < expiry)"

text \<open>\<^verbatim>\<open>INCR\<close>: the store after the call and the new count, \<open>None\<close> when the call threw.\<close>

definition incr :: "counter_store \<Rightarrow> string \<Rightarrow> int \<Rightarrow> counter_store \<times> nat option" where
  "incr cs key now =
     (case cs_call cs of
        (cs0, False) \<Rightarrow> (cs0, None)
      | (cs0, True) \<Rightarrow>
          (case cs_counters cs0 key of
             Some (n, ex) \<Rightarrow>
               if counter_live cs0 key now
               then (cs0\<lparr>cs_counters := (cs_counters cs0)(key \<mapsto> (Suc n, ex))\<rparr>, Some (Suc n))
               else (cs0\<lparr>cs_counters := (cs_counters cs0)(key \<mapsto> (1, None))\<rparr>, Some 1)
           | None \<Rightarrow> (cs0\<lparr>cs_counters := (cs_counters cs0)(key \<mapsto> (1, None))\<rparr>, Some 1)))"

text \<open>\<^verbatim>\<open>PEXPIRE\<close>: the store after the call and whether the call returned.\<close>

definition pExpire :: "counter_store \<Rightarrow> string \<Rightarrow> int \<Rightarrow> int \<Rightarrow> counter_store \<times> bool" where
  "pExpire cs key ms now =
     (case cs_call cs of
        (cs0, False) \<Rightarrow> (cs0, False)
      | (cs0, True) \<Rightarrow>
          (case cs_counters cs0 key of
             None \<Rightarrow> (cs0, True)
           | Some (n, ex) \<Rightarrow>
               (cs0\<lparr>cs_counters := (cs_counters cs0)(key \<mapsto> (n, Some (now + ms)))\<rparr>, True)))"

text \<open>
  The options. The key generator is called with the wrapper's first argument; \<open>None\<close> is a
  generator that throws.
\<close>

record 'p RateLimitOptions =
  maxRequests :: int
  windowMs :: int
  skipAnonymous :: bool
  keyGenerator :: "'p arg \<Rightarrow> string \<Rightarrow> string option"

text \<open>
  The default key generator, lines 16-19:
  \<^verbatim>\<open>socket.data?.user?.id || "anonymous"\<close>. A client's payload has no \<^verbatim>\<open>data\<close>, so its
  key is the anonymous one; reading \<^verbatim>\<open>.data\<close> of \<^verbatim>\<open>undefined\<close> throws.
\<close>

definition default_keyGenerator :: "'p arg \<Rightarrow> string \<Rightarrow> string option" where
  "default_keyGenerator a eventName =
     (case a of
        Connection s \<Rightarrow>
          Some (''ratelimit:socket:'' @ (case userId_of s of None \<Rightarrow> ''anonymous'' | Some u \<Rightarrow> u)
                  @ '':'' @ eventName)
      | Payload p \<Rightarrow> Some (''ratelimit:socket:'' @ ''anonymous'' @ '':'' @ eventName)
      | Undefined \<Rightarrow> None)"

definition defaultOptions :: "'p RateLimitOptions" where
  "defaultOptions = \<lparr>maxRequests = 100, windowMs = 60000, skipAnonymous = False,
                      keyGenerator = default_keyGenerator\<rparr>"

text \<open>
  \<^verbatim>\<open>createSocketRateLimiter(options)\<close> merges the given options over the defaults
  (\<^verbatim>\<open>{ ...defaultOptions, ...options }\<close>); an option left out is \<open>None\<close>.
\<close>

record 'p PartialOptions =
  opt_maxRequests :: "int option"
  opt_windowMs :: "int option"
  opt_skipAnonymous :: "bool option"
  opt_keyGenerator :: "('p arg \<Rightarrow> string \<Rightarrow> string option) option"

definition createSocketRateLimiter :: "'p PartialOptions \<Rightarrow> 'p RateLimitOptions" where
  "createSocketRateLimiter options =
     \<lparr>maxRequests = (case opt_maxRequests options of
                        None \<Rightarrow> maxRequests (defaultOptions :: 'p RateLimitOptions) | Some n \<Rightarrow> n),
      windowMs = (case opt_windowMs options of
                    None \<Rightarrow> windowMs (defaultOptions :: 'p RateLimitOptions) | Some w \<Rightarrow> w),
      skipAnonymous = (case opt_skipAnonymous options of
                         None \<Rightarrow> skipAnonymous (defaultOptions :: 'p RateLimitOptions)
                       | Some b \<Rightarrow> b),
      keyGenerator = (case opt_keyGenerator options of
                        None \<Rightarrow> keyGenerator defaultOptions | Some g \<Rightarrow> g)\<rparr>"

text \<open>
  The limiters of the room handler and of the sticky-note handler are all built like this
  one: \<^verbatim>\<open>createSocketRateLimiter({ maxRequests: n, windowMs: 60000 })\<close>.
\<close>

definition per_minute :: "int \<Rightarrow> 'p RateLimitOptions" where
  "per_minute n =
     createSocketRateLimiter
       \<lparr>opt_maxRequests = Some n, opt_windowMs = Some 60000, opt_skipAnonymous = None,
        opt_keyGenerator = None\<rparr>"

text \<open>
  \<^verbatim>\<open>socket.data?.user?.isAnonymous\<close>, line 34: \<open>None\<close> when the read throws.
\<close>

definition anonymous_socket :: "socket \<Rightarrow> bool" where
  "anonymous_socket s = (case sock_user s of None \<Rightarrow> False | Some u \<Rightarrow> isAnonymous u)"

definition arg_isAnonymous :: "'p arg \<Rightarrow> bool option" where
  "arg_isAnonymous a =
     (case a of
        Connection s \<Rightarrow> Some (anonymous_socket s)
      | Payload p \<Rightarrow> Some False
      | Undefined \<Rightarrow> None)"

text \<open>
  How a template literal prints a number: an integer in decimal, and
  \<^verbatim>\<open>config.windowMs / 1000\<close> in decimal with no trailing zeros (numbers below
  \<^verbatim>\<open>1e21\<close>).
\<close>

definition digit :: "int \<Rightarrow> char" where
  "digit n = ''0123456789'' ! nat n"

function show_digits :: "int \<Rightarrow> string" where
  "show_digits n = (if n < 10 then [digit n] else show_digits (n div 10) @ [digit (n mod 10)])"
  by pat_completeness auto
termination by (relation "measure nat") auto

declare show_digits.simps [simp del]

definition show_int :: "int \<Rightarrow> string" where
  "show_int i = (if i < 0 then CHR ''-'' # show_digits (- i) else show_digits i)"

definition show_thousandths :: "int \<Rightarrow> string" where
  "show_thousandths ms =
     (let a = abs ms;
          frac = rev (dropWhile (\<lambda>c. c = CHR ''0'')
                        (rev [digit (a mod 1000 div 100), digit (a mod 100 div 10), digit (a mod 10)]))
      in (if ms < 0 then ''-'' else []) @ show_digits (a div 1000)
           @ (if frac = [] then [] else CHR ''.'' # frac))"

text \<open>
  The error of lines 51-55, \<^verbatim>\<open>{code, message, timestamp}\<close>: the limit and the window
  (in seconds) appear in the message text only.
\<close>

definition rate_limit_exceeded :: "'p RateLimitOptions \<Rightarrow> string \<Rightarrow> socket \<Rightarrow> emission" where
  "rate_limit_exceeded config eventName s =
     error_to s ''RATE_LIMIT_EXCEEDED''
       (''Rate limit exceeded for '' @ eventName @ ''. Max '' @ show_int (maxRequests config)
          @ '' requests per '' @ show_thousandths (windowMs config) @ '' seconds.'')"

text \<open>
  What the wrapper did with an event: it called the handler (and returned what the handler
  returned), or it sent the error and returned.
\<close>

datatype 'r outcome = Invoked 'r | Rejected emission

text \<open>
  The wrapper returned by \<^verbatim>\<open>createSocketRateLimiter\<close>, lines 30-71, called with the
  arguments \<open>a\<close> and \<open>data\<close>. Everything between \<^verbatim>\<open>try\<close> and \<^verbatim>\<open>catch\<close> that throws ends in
  the \<^verbatim>\<open>catch\<close> block, which calls the handler: a read of \<^verbatim>\<open>.data\<close> on \<^verbatim>\<open>undefined\<close>, a
  key generator that throws, a store call that throws, and \<^verbatim>\<open>socket.emit\<close> on a first
  argument that is not a connection.
\<close>

definition rateLimited ::
  "'p RateLimitOptions \<Rightarrow> string \<Rightarrow> ('p arg \<Rightarrow> 'd \<Rightarrow> 'r) \<Rightarrow> 'p arg \<Rightarrow> 'd \<Rightarrow> int \<Rightarrow> counter_store
     \<Rightarrow> counter_store \<times> 'r outcome" where
  "rateLimited config eventName handler a data now cs =
     (case (if skipAnonymous config then arg_isAnonymous a else Some False) of
        None \<Rightarrow> (cs, Invoked (handler a data))
      | Some True \<Rightarrow> (cs, Invoked (handler a data))
      | Some False \<Rightarrow>
     (case keyGenerator config a eventName of
        None \<Rightarrow> (cs, Invoked (handler a data))
      | Some key \<Rightarrow>
     (case incr cs key now of
        (cs1, None) \<Rightarrow> (cs1, Invoked (handler a data))
      | (cs1, Some current) \<Rightarrow>
     (case (if current = 1 then pExpire cs1 key (windowMs config) now else (cs1, True)) of
        (cs2, False) \<Rightarrow> (cs2, Invoked (handler a data))
      | (cs2, True) \<Rightarrow>
          if int current > maxRequests config
          then (case a of
                  Connection s \<Rightarrow> (cs2, Rejected (rate_limit_exceeded config eventName s))
                | Payload p \<Rightarrow> (cs2, Invoked (handler a data))
                | Undefined \<Rightarrow> (cs2, Invoked (handler a data)))
          else (cs2, Invoked (handler a data))))))"

text \<open>The wrapper called with the same arguments at each of the given times.\<close>

fun run_events ::
  "'p RateLimitOptions \<Rightarrow> string \<Rightarrow> ('p arg \<Rightarrow> 'd \<Rightarrow> 'r) \<Rightarrow> 'p arg \<Rightarrow> 'd \<Rightarrow> int list
     \<Rightarrow> counter_store \<Rightarrow> counter_store \<times> 'r outcome list" where
  "run_events config eventName handler a data [] cs = (cs, [])"
| "run_events config eventName handler a data (t # ts) cs =
     (let (cs1, r) = rateLimited config eventName handler a data t cs;
          (cs2, rs) = run_events config eventName handler a data ts cs1
      in (cs2, r # rs))"

text \<open>
  A listener registered as \<^verbatim>\<open>socket.on(event, rateLimiters.x(event, handler))\<close>: the
  wrapper is the listener, so its first argument is what the client sent with the event:
  the payload, or \<^verbatim>\<open>undefined\<close> for an event sent without one. Its second argument is
  \<^verbatim>\<open>undefined\<close>, or the client's acknowledgement callback, which is no payload either;
  the handlers fail on both in the same way, and the model passes \<open>None\<close>.
\<close>

definition sent :: "'p option \<Rightarrow> 'p arg" where
  "sent payload = (case payload of None \<Rightarrow> Undefined | Some p \<Rightarrow> Payload p)"

text \<open>
  The listener called the handler and the handler's promise rejected: the event changed
  nothing but the limiter's counter, and nothing was sent to anyone.
\<close>

fun threw :: "'r promise outcome \<Rightarrow> bool" where
  "threw (Invoked Thrown) = True"
| "threw (Invoked (Resolved r)) = False"
| "threw (Rejected e) = False"

section \<open>Sticky-note handlers (handlers/sticky-note.handler.ts)\<close>

text \<open>
  Source: the class \<^verbatim>\<open>StickyNoteHandler\<close>, the first file kept in
  \<^verbatim>\<open>src/handlers/sticky-note.handler.ts\<close>. Its update and delete handlers work on the
  elements of the same whiteboard document as \<^verbatim>\<open>element-update\<close> and
  \<^verbatim>\<open>element-delete\<close>. They are declared as \<^verbatim>\<open>async (socket, data) => ...\<close>.
\<close>

record sticky_update_data =
  su_roomId :: string
  su_stickyNote :: sticky_note

record sticky_delete_data =
  sd_roomId :: string
  sd_stickyNoteId :: string

text \<open>
  The body of the \<^verbatim>\<open>sticky-note:update\<close> handler, lines 140-213, on a connection. The
  fields of the element found are assigned in place (lines 180-190), which the document
  does not track, so \<^verbatim>\<open>save\<close> finds no modified path.
\<close>

definition sticky_note_update_body ::
  "socket \<Rightarrow> sticky_update_data option \<Rightarrow> int \<Rightarrow> wb_world \<Rightarrow> wb_world \<times> emission list" where
  "sticky_note_update_body s data now w =
     (let failed = error_to s ''STICKY_NOTE_UPDATE_FAILED'' ''Failed to update sticky note'' in
      case data of
        None \<Rightarrow> (w, [failed])
      | Some d \<Rightarrow>
     (case sock_user s of
        None \<Rightarrow> (w, [error_to s ''UNAUTHORIZED'' ''User not authenticated''])
      | Some user \<Rightarrow>
     (case findOne w (su_roomId d) of
        None \<Rightarrow> (w, [failed])
      | Some None \<Rightarrow> (w, [error_to s ''WHITEBOARD_NOT_FOUND'' ''Whiteboard not found''])
      | Some (Some wb) \<Rightarrow>
     (case findIndex (\<lambda>el. el_id el = note_id (su_stickyNote d) \<and> el_type el = ''sticky-note'')
             (wb_elements wb) of
        None \<Rightarrow> (w, [error_to s ''STICKY_NOTE_NOT_FOUND'' ''Sticky note not found''])
      | Some elementIndex \<Rightarrow>
     (case save w now (loaded wb) of
        None \<Rightarrow> (w, [failed])
      | Some (w1, saved) \<Rightarrow>
          (w1, [Emit (ToOthers (su_roomId d) (sock_id s)) ''sticky-note:updated''
                  (PStickyNoteUpdated (su_stickyNote d))]))))))"

text \<open>\<^verbatim>\<open>xs.splice(i, 1)\<close>\<close>

definition splice_one :: "nat \<Rightarrow> 'a list \<Rightarrow> 'a list" where
  "splice_one i xs = take i xs @ drop (Suc i) xs"

text \<open>The body of the \<^verbatim>\<open>sticky-note:delete\<close> handler, lines 227-296, on a connection.\<close>

definition sticky_note_delete_body ::
  "socket \<Rightarrow> sticky_delete_data option \<Rightarrow> int \<Rightarrow> wb_world \<Rightarrow> wb_world \<times> emission list" where
  "sticky_note_delete_body s data now w =
     (let failed = error_to s ''STICKY_NOTE_DELETE_FAILED'' ''Failed to delete sticky note'' in
      case data of
        None \<Rightarrow> (w, [failed])
      | Some d \<Rightarrow>
     (case sock_user s of
        None \<Rightarrow> (w, [error_to s ''UNAUTHORIZED'' ''User not authenticated''])
      | Some user \<Rightarrow>
     (case findOne w (sd_roomId d) of
        None \<Rightarrow> (w, [failed])
      | Some None \<Rightarrow> (w, [error_to s ''WHITEBOARD_NOT_FOUND'' ''Whiteboard not found''])
      | Some (Some wb) \<Rightarrow>
     (case findIndex (\<lambda>el. el_id el = sd_stickyNoteId d \<and> el_type el = ''sticky-note'')
             (wb_elements wb) of
        None \<Rightarrow> (w, [error_to s ''STICKY_NOTE_NOT_FOUND'' ''Sticky note not found''])
      | Some elementIndex \<Rightarrow>
     (if el_customUserId (wb_elements wb ! elementIndex) \<noteq> Some (user_id user)
      then (w, [error_to s ''UNAUTHORIZED'' ''Not authorized to delete this sticky note''])
      else
     (case save w now (set_elements (splice_one elementIndex (wb_elements wb)) (loaded wb)) of
        None \<Rightarrow> (w, [failed])
      | Some (w1, saved) \<Rightarrow>
          (w1, [Emit (ToAll (sd_roomId d)) ''sticky-note:deleted''
                  (PStickyNoteDeleted (sd_stickyNoteId d))])))))))"

text \<open>
  The two handlers on whatever they are called with. On a first argument that is not a
  connection the first statement that touches it throws (\<^verbatim>\<open>socket.data.user\<close>, or the
  destructuring of a missing \<^verbatim>\<open>data\<close> before it), and \<^verbatim>\<open>socket.emit\<close> in the
  \<^verbatim>\<open>catch\<close> block throws again.
\<close>

definition sticky_note_update ::
  "sticky_update_data arg \<Rightarrow> sticky_update_data option \<Rightarrow> int \<Rightarrow> wb_world
     \<Rightarrow> (wb_world \<times> emission list) promise" where
  "sticky_note_update a data now w =
     (case a of
        Connection s \<Rightarrow> Resolved (sticky_note_update_body s data now w)
      | Payload p \<Rightarrow> Thrown
      | Undefined \<Rightarrow> Thrown)"

definition sticky_note_delete ::
  "sticky_delete_data arg \<Rightarrow> sticky_delete_data option \<Rightarrow> int \<Rightarrow> wb_world
     \<Rightarrow> (wb_world \<times> emission list) promise" where
  "sticky_note_delete a data now w =
     (case a of
        Connection s \<Rightarrow> Resolved (sticky_note_delete_body s data now w)
      | Payload p \<Rightarrow> Thrown
      | Undefined \<Rightarrow> Thrown)"

text \<open>
  The two listeners as registered on a connection \<open>s\<close>, lines 132-136 and 219-223:
  \<^verbatim>\<open>socket.on('sticky-note:update', rateLimiters.update('sticky-note:update', handler))\<close>.
  The connection is not among the listener's arguments.
\<close>

definition on_sticky_note_update ::
  "socket \<Rightarrow> sticky_update_data option \<Rightarrow> int \<Rightarrow> counter_store \<Rightarrow> wb_world
     \<Rightarrow> counter_store \<times> (wb_world \<times> emission list) promise outcome" where
  "on_sticky_note_update s payload now cs w =
     rateLimited (per_minute 60) ''sticky-note:update''
       (\<lambda>a data. sticky_note_update a data now w) (sent payload) None now cs"

definition on_sticky_note_delete ::
  "socket \<Rightarrow> sticky_delete_data option \<Rightarrow> int \<Rightarrow> counter_store \<Rightarrow> wb_world
     \<Rightarrow> counter_store \<times> (wb_world \<times> emission list) promise outcome" where
  "on_sticky_note_delete s payload now cs w =
     rateLimited (per_minute 30) ''sticky-note:delete''
       (\<lambda>a data. sticky_note_delete a data now w) (sent payload) None now cs"

section \<open>The presence store (presence.util.ts)\<close>

text \<open>Source: \<^verbatim>\<open>src/utils/password.util.ts\<close>, lines 84-268.\<close>

text \<open>
  One hash per room (\<^verbatim>\<open>room:${roomId}:users\<close>), from user id to the stored
  \<^verbatim>\<open>UserPresenceData\<close>. The hashes are kept as association lists so that \<^verbatim>\<open>keys\<close> and
  \<^verbatim>\<open>hGetAll\<close> can enumerate them. The 24 hour expiry of a hash is not modelled. Every
  function of the file catches a failing store and returns its default.
\<close>

record redis =
  redis_up :: bool
  hashes :: "(string \<times> (string \<times> presence_data) list) list"

definition hGetAll :: "redis \<Rightarrow> string \<Rightarrow> (string \<times> presence_data) list" where
  "hGetAll r roomId = (case map_of (hashes r) roomId of None \<Rightarrow> [] | Some h \<Rightarrow> h)"

definition hGet :: "redis \<Rightarrow> string \<Rightarrow> string \<Rightarrow> presence_data option" where
  "hGet r roomId userId = map_of (hGetAll r roomId) userId"

definition hExists :: "redis \<Rightarrow> string \<Rightarrow> string \<Rightarrow> bool" where
  "hExists r roomId userId = (hGet r roomId userId \<noteq> None)"

definition hSet :: "redis \<Rightarrow> string \<Rightarrow> string \<Rightarrow> presence_data \<Rightarrow> redis" where
  "hSet r roomId userId v =
     r\<lparr>hashes := AList.update roomId (AList.update userId v (hGetAll r roomId)) (hashes r)\<rparr>"

definition addUserToRoom :: "string \<Rightarrow> string \<Rightarrow> presence_data \<Rightarrow> redis \<Rightarrow> redis" where
  "addUserToRoom userId roomId userData r =
     (if redis_up r then hSet r roomId userId userData else r)"

definition removeUserFromRoom :: "string \<Rightarrow> string \<Rightarrow> redis \<Rightarrow> redis" where
  "removeUserFromRoom userId roomId r =
     (if redis_up r
      then (let h = AList.delete userId (hGetAll r roomId) in
            if length h = 0
            then r\<lparr>hashes := AList.delete roomId (hashes r)\<rparr>
            else r\<lparr>hashes := AList.update roomId h (hashes r)\<rparr>)
      else r)"

definition getUsersInRoom :: "string \<Rightarrow> redis \<Rightarrow> presence_data list" where
  "getUsersInRoom roomId r =
     (if redis_up r
      then map (\<lambda>(userId, parsedUser). parsedUser\<lparr>pd_id := userId\<rparr>) (hGetAll r roomId)
      else [])"

definition getUserRooms :: "string \<Rightarrow> redis \<Rightarrow> string list" where
  "getUserRooms userId r =
     (if redis_up r
      then filter (\<lambda>roomId. hExists r roomId userId) (map fst (hashes r))
      else [])"

text \<open>The loop body of \<^verbatim>\<open>cleanupUserPresence\<close>, lines 212-228.\<close>

definition cleanup_room :: "string \<Rightarrow> string option \<Rightarrow> string \<Rightarrow> redis \<Rightarrow> redis" where
  "cleanup_room userId socketId roomId r =
     (case socketId of
        Some sid \<Rightarrow>
          (case hGet r roomId userId of
             Some userData \<Rightarrow>
               if pd_socketId userData = sid then removeUserFromRoom userId roomId r else r
           | None \<Rightarrow> r)
      | None \<Rightarrow> removeUserFromRoom userId roomId r)"

definition cleanupUserPresence :: "string \<Rightarrow> string option \<Rightarrow> redis \<Rightarrow> redis \<times> string list" where
  "cleanupUserPresence userId socketId r =
     (let userRooms = getUserRooms userId r in
      (fold (cleanup_room userId socketId) userRooms r, userRooms))"

definition isUserInRoom :: "string \<Rightarrow> string \<Rightarrow> redis \<Rightarrow> bool" where
  "isUserInRoom userId roomId r = (if redis_up r then hExists r roomId userId else False)"

definition updateUserActivity :: "string \<Rightarrow> string \<Rightarrow> int \<Rightarrow> redis \<Rightarrow> redis" where
  "updateUserActivity userId roomId now r =
     (if redis_up r
      then (case hGet r roomId userId of
              Some userData \<Rightarrow> hSet r roomId userId (userData\<lparr>pd_lastActivity := now\<rparr>)
            | None \<Rightarrow> r)
      else r)"

text \<open>The stored hashes are well formed when no key occurs twice.\<close>

definition wf_redis :: "redis \<Rightarrow> bool" where
  "wf_redis r = (distinct (map fst (hashes r)) \<and> list_all (\<lambda>(k, h). distinct (map fst h)) (hashes r))"

section \<open>Plan limits (plan-limits.util.ts)\<close>

text \<open>Source: \<^verbatim>\<open>src/utils/password.util.ts\<close>, lines 268-590.\<close>

text \<open>
  The participant limits of \<^verbatim>\<open>PLAN_LIMITS\<close> are read from the environment when the
  module loads; they are a parameter here. -1 stands for unlimited.
\<close>

record plan_limits =
  free_maxParticipants :: int
  pro_maxParticipants :: int
  teams_maxParticipants :: int

definition env_defaults :: plan_limits where
  "env_defaults = \<lparr>free_maxParticipants = 2, pro_maxParticipants = 10, teams_maxParticipants = 50\<rparr>"

definition PLAN_LIMITS :: "plan_limits \<Rightarrow> string \<Rightarrow> int option" where
  "PLAN_LIMITS env plan =
     (if plan = ''FREE'' then Some (free_maxParticipants env)
      else if plan = ''PRO'' then Some (pro_maxParticipants env)
      else if plan = ''TEAMS'' then Some (teams_maxParticipants env)
      else None)"

definition getPlanLimits :: "plan_limits \<Rightarrow> string \<Rightarrow> int" where
  "getPlanLimits env plan =
     (case PLAN_LIMITS env plan of Some l \<Rightarrow> l | None \<Rightarrow> free_maxParticipants env)"

definition canAddParticipant :: "plan_limits \<Rightarrow> nat \<Rightarrow> string \<Rightarrow> bool \<times> string option" where
  "canAddParticipant env currentCount plan =
     (let maxParticipants = getPlanLimits env plan in
      if maxParticipants = -1 then (True, None)
      else if int currentCount \<ge> maxParticipants
           then (False, Some (''Participant limit reached for '' @ plan @ '' plan''))
           else (True, None))"

section \<open>Room handlers (room.handler.ts)\<close>

text \<open>Source: \<^verbatim>\<open>src/unnamed/part_007\<close>, lines 118-655.\<close>

record room_doc =
  room_ownerId :: string
  room_participants :: "string list"

record server =
  redis :: redis
  rooms :: "string \<rightharpoonup> room_doc"
  users :: "string \<rightharpoonup> string"
  boards :: wb_world

text \<open>
  \<^verbatim>\<open>Room.findById\<close> and \<^verbatim>\<open>User.findById\<close> (the owner's \<^verbatim>\<open>subscriptionPlan\<close>); they
  throw when the database is down.
\<close>

definition Room_findById :: "server \<Rightarrow> string \<Rightarrow> room_doc option option" where
  "Room_findById sv roomId = (if db_up (boards sv) then Some (rooms sv roomId) else None)"

definition User_findById :: "server \<Rightarrow> string \<Rightarrow> string option option" where
  "User_findById sv userId = (if db_up (boards sv) then Some (users sv userId) else None)"

record userData =
  hint_userName :: "string option"
  hint_avatar :: "string option"

record join_data =
  jd_roomId :: string
  jd_userData :: "userData option"

definition whiteboardState_of :: "whiteboard option \<Rightarrow> whiteboardState" where
  "whiteboardState_of found =
     (case found of
        Some wb \<Rightarrow> \<lparr>ws_elements = wb_elements wb, ws_appState = wb_appState wb,
                    ws_files = wb_files wb, ws_version = wb_version wb\<rparr>
      | None \<Rightarrow> \<lparr>ws_elements = [], ws_appState = ''{}'', ws_files = ''{}'', ws_version = 0\<rparr>)"

definition join_room_error :: "socket \<Rightarrow> emission" where
  "join_room_error s = error_to s ''JOIN_ROOM_ERROR'' ''Failed to join room''"

text \<open>The reconnection branch of \<^verbatim>\<open>join-room\<close>, lines 204-239 of the handler.\<close>

definition join_reconnect :: "socket \<Rightarrow> string \<Rightarrow> string \<Rightarrow> server \<Rightarrow> emission list" where
  "join_reconnect s userId roomId sv =
     (let users = getUsersInRoom roomId (redis sv) in
      case findOne (boards sv) roomId of
        None \<Rightarrow> [join_room_error s]
      | Some found \<Rightarrow>
          [Emit (ToSelf (sock_id s)) ''room-joined''
             (PRoomJoined roomId users (whiteboardState_of found)),
           Emit (ToOthers roomId (sock_id s)) ''user-restored''
             (PUserRestored roomId userId
                (case sock_user s of
                   None \<Rightarrow> ''Unknown User''
                 | Some u \<Rightarrow> if user_name u = [] then ''Unknown User'' else user_name u))])"

text \<open>\<^verbatim>\<open>// Leave current room if any\<close>, lines 241-252.\<close>

definition leave_current :: "socket \<Rightarrow> string \<Rightarrow> server \<Rightarrow> socket \<times> server \<times> emission list" where
  "leave_current s userId sv =
     (case currentRoom s of
        None \<Rightarrow> (s, sv, [])
      | Some cur \<Rightarrow>
          if cur = [] then (s, sv, [])
          else
            (let s1 = s\<lparr>sock_rooms := removeAll cur (sock_rooms s)\<rparr>;
                 r1 = removeUserFromRoom userId cur (redis sv);
                 updatedUsers = getUsersInRoom cur r1
             in (s1, sv\<lparr>redis := r1\<rparr>,
                 [Emit (ToOthers cur (sock_id s)) ''user-left'' (PUserLeft cur userId updatedUsers)])))"

text \<open>
  \<^verbatim>\<open>// Check participant limits before joining\<close>, lines 254-308: the error sent to the
  joiner when the join is refused, \<open>None\<close> when it may proceed.
\<close>

definition currentParticipantCount :: "string \<Rightarrow> room_doc \<Rightarrow> server \<Rightarrow> nat" where
  "currentParticipantCount roomId room sv =
     max (length (getUsersInRoom roomId (redis sv))) (length (room_participants room))"

definition limit_check :: "plan_limits \<Rightarrow> socket \<Rightarrow> string \<Rightarrow> server \<Rightarrow> emission option" where
  "limit_check env s roomId sv =
     (let join_error = (\<lambda>code msg. Emit (ToSelf (sock_id s)) ''room:join-error'' (PJoinError code msg));
          failed = join_error ''LIMIT_CHECK_FAILED'' ''Failed to verify room capacity''
      in case Room_findById sv roomId of
           None \<Rightarrow> Some failed
         | Some None \<Rightarrow> Some (join_error ''ROOM_NOT_FOUND'' ''Room not found'')
         | Some (Some room) \<Rightarrow>
        (case User_findById sv (room_ownerId room) of
           None \<Rightarrow> Some failed
         | Some None \<Rightarrow> Some (join_error ''OWNER_NOT_FOUND'' ''Room owner not found'')
         | Some (Some ownerPlan) \<Rightarrow>
        (let count = currentParticipantCount roomId room sv;
             canAdd = canAddParticipant env count ownerPlan
         in if \<not> fst canAdd
            then Some (Emit (ToSelf (sock_id s)) ''room:join-error''
                   (PLimitError ''PARTICIPANT_LIMIT''
                      (case snd canAdd of
                         Some reason \<Rightarrow> reason
                       | None \<Rightarrow> ''Participant limit reached. Room owner needs to upgrade.'')
                      count (getPlanLimits env ownerPlan) ownerPlan))
            else None)))"

text \<open>
  \<^verbatim>\<open>userPresenceData\<close>, lines 315-322. Reading \<^verbatim>\<open>userData.userName\<close> or
  \<^verbatim>\<open>userData.avatar\<close> throws when the request carries no \<^verbatim>\<open>userData\<close>; the reads
  happen only when the connection's own name or avatar is missing.
\<close>

definition userPresenceData_of :: "socket \<Rightarrow> string \<Rightarrow> userData option \<Rightarrow> int \<Rightarrow> presence_data option" where
  "userPresenceData_of s userId hints now =
     (let own_name = (case sock_user s of None \<Rightarrow> [] | Some u \<Rightarrow> user_name u);
          own_avatar = (case sock_user s of None \<Rightarrow> None | Some u \<Rightarrow> user_avatar u);
          name = (if own_name \<noteq> [] then Some own_name
                  else (case hints of
                          None \<Rightarrow> None
                        | Some h \<Rightarrow>
                            (case hint_userName h of
                               None \<Rightarrow> Some ''Anonymous''
                             | Some n \<Rightarrow> Some (if n = [] then ''Anonymous'' else n))));
          avatar = (if own_avatar \<noteq> None \<and> own_avatar \<noteq> Some [] then Some own_avatar
                    else (case hints of None \<Rightarrow> None | Some h \<Rightarrow> Some (hint_avatar h)))
      in case (name, avatar) of
           (Some n, Some a) \<Rightarrow>
             Some \<lparr>pd_id = userId, pd_name = n, pd_avatar = a, pd_socketId = sock_id s,
                   pd_joinedAt = now, pd_lastActivity = now\<rparr>
         | _ \<Rightarrow> None)"

text \<open>The rest of \<^verbatim>\<open>join-room\<close> once the limit check has passed, lines 310-373.\<close>

definition join_admit ::
  "socket \<Rightarrow> string \<Rightarrow> join_data \<Rightarrow> int \<Rightarrow> server \<Rightarrow> socket \<times> server \<times> emission list" where
  "join_admit s userId d now sv =
     (let roomId = jd_roomId d;
          s1 = s\<lparr>sock_rooms := List.insert roomId (sock_rooms s), currentRoom := Some roomId\<rparr>
      in case userPresenceData_of s1 userId (jd_userData d) now of
           None \<Rightarrow> (s1, sv, [join_room_error s])
         | Some userPresenceData \<Rightarrow>
        (let r1 = addUserToRoom userId roomId userPresenceData (redis sv);
             sv1 = sv\<lparr>redis := r1\<rparr>;
             allUsers = getUsersInRoom roomId r1
         in case findOne (boards sv1) roomId of
              None \<Rightarrow> (s1, sv1, [join_room_error s])
            | Some found \<Rightarrow>
                (s1, sv1,
                 [Emit (ToOthers roomId (sock_id s)) ''user-joined''
                    (PUserJoined roomId userPresenceData
                       (case sock_user s of None \<Rightarrow> None | Some u \<Rightarrow> user_plan u) (sock_id s)),
                  Emit (ToOthers roomId (sock_id s)) ''user-online'' (PUserOnline userId),
                  Emit (ToSelf (sock_id s)) ''room-joined''
                    (PRoomJoined roomId allUsers (whiteboardState_of found))])))"

text \<open>The body of the \<^verbatim>\<open>join-room\<close> handler, lines 166-382, on a connection.\<close>

definition join_room_body ::
  "plan_limits \<Rightarrow> socket \<Rightarrow> join_data option \<Rightarrow> int \<Rightarrow> server \<Rightarrow> socket \<times> server \<times> emission list" where
  "join_room_body env s data now sv =
     (case data of
        None \<Rightarrow> (s, sv, [error_to s ''INVALID_DATA'' ''Missing data for join-room request''])
      | Some d \<Rightarrow>
     (if jd_roomId d = [] then (s, sv, [error_to s ''INVALID_ROOM_ID'' ''Room ID is required''])
      else
     (case userId_of s of
        None \<Rightarrow> (s, sv, [error_to s ''UNAUTHORIZED'' ''Must be authenticated to join rooms''])
      | Some userId \<Rightarrow>
     (if isUserInRoom userId (jd_roomId d) (redis sv)
      then (s, sv, join_reconnect s userId (jd_roomId d) sv)
      else
     (case leave_current s userId sv of
        (s1, sv1, left) \<Rightarrow>
     (case limit_check env s1 (jd_roomId d) sv1 of
        Some refusal \<Rightarrow> (s1, sv1, left @ [refusal])
      | None \<Rightarrow>
     (case join_admit s1 userId d now sv1 of
        (s2, sv2, out) \<Rightarrow> (s2, sv2, left @ out))))))))"

text \<open>The body of the \<^verbatim>\<open>leave-room\<close> handler, lines 391-474, on a connection.\<close>

definition leave_room_body ::
  "socket \<Rightarrow> string option \<Rightarrow> server \<Rightarrow> socket \<times> server \<times> emission list" where
  "leave_room_body s data sv =
     (case data of
        None \<Rightarrow> (s, sv, [error_to s ''INVALID_DATA'' ''Missing data for leave-room request''])
      | Some roomId \<Rightarrow>
     (if roomId = [] then (s, sv, [error_to s ''INVALID_ROOM_ID'' ''Room ID is required''])
      else
     (case userId_of s of
        None \<Rightarrow> (s, sv, [error_to s ''UNAUTHORIZED'' ''Must be authenticated to leave rooms''])
      | Some userId \<Rightarrow>
     (if \<not> isUserInRoom userId roomId (redis sv)
      then (s, sv, [error_to s ''NOT_IN_ROOM'' ''User is not in this room''])
      else
     (let r1 = removeUserFromRoom userId roomId (redis sv);
          s1 = s\<lparr>sock_rooms := removeAll roomId (sock_rooms s), currentRoom := None\<rparr>;
          users = getUsersInRoom roomId r1
      in (s1, sv\<lparr>redis := r1\<rparr>,
          [Emit (ToOthers roomId (sock_id s)) ''user-left'' (PUserLeft roomId userId users),
           Emit (ToOthers roomId (sock_id s)) ''user-offline'' (PUserOffline userId ''manual''),
           Emit (ToSelf (sock_id s)) ''room-left'' (PRoomLeft roomId)]))))))"

text \<open>
  The body of the \<^verbatim>\<open>get-room-users\<close> handler, lines 532-549, on a connection.
  Destructuring a missing \<^verbatim>\<open>data\<close> throws, which the handler catches.
\<close>

definition get_room_users_body :: "socket \<Rightarrow> string option \<Rightarrow> server \<Rightarrow> emission list" where
  "get_room_users_body s data sv =
     (case data of
        None \<Rightarrow> [error_to s ''GET_ROOM_USERS_ERROR'' ''Failed to get room users'']
      | Some roomId \<Rightarrow>
          [Emit (ToSelf (sock_id s)) ''room-users''
             (PRoomUsers roomId (getUsersInRoom roomId (redis sv)))])"

text \<open>The body of the \<^verbatim>\<open>request-room-users\<close> handler, lines 558-617, on a connection.\<close>

definition request_room_users_body :: "socket \<Rightarrow> string option \<Rightarrow> server \<Rightarrow> emission list" where
  "request_room_users_body s data sv =
     (case data of
        None \<Rightarrow> [error_to s ''INVALID_DATA'' ''Missing data for request-room-users request'']
      | Some roomId \<Rightarrow>
     (if roomId = [] then [error_to s ''INVALID_ROOM_ID'' ''Room ID is required'']
      else
     (case userId_of s of
        None \<Rightarrow> [error_to s ''UNAUTHORIZED'' ''Must be authenticated to request room users'']
      | Some userId \<Rightarrow>
     (if \<not> isUserInRoom userId roomId (redis sv)
      then [error_to s ''UNAUTHORIZED'' ''Must be in room to request user list'']
      else [Emit (ToSelf (sock_id s)) ''room-users-list''
              (PRoomUsers roomId (getUsersInRoom roomId (redis sv)))]))))"

text \<open>
  The four handlers on whatever they are called with. They are declared as
  \<^verbatim>\<open>async (socket, data) => ...\<close>, and \<^verbatim>\<open>socket\<close> in their bodies is the first argument,
  not the connection of the enclosing \<^verbatim>\<open>registerRoomHandlers\<close>. On a first argument
  that is not a connection, the first statement that touches it throws a
  \<^verbatim>\<open>TypeError\<close>: \<^verbatim>\<open>socket.emit\<close> of a validation error, \<^verbatim>\<open>socketData.user\<close> on a missing
  \<^verbatim>\<open>socket.data\<close>, or \<^verbatim>\<open>socket.emit("room-users", ...)\<close>; nothing has been written to a
  store or sent before it (\<^verbatim>\<open>get-room-users\<close> has read the presence list). The
  \<^verbatim>\<open>catch\<close> block calls \<^verbatim>\<open>socket.emit\<close> and throws again, so the promise rejects.
\<close>

definition join_room ::
  "plan_limits \<Rightarrow> join_data arg \<Rightarrow> join_data option \<Rightarrow> int \<Rightarrow> server
     \<Rightarrow> (socket \<times> server \<times> emission list) promise" where
  "join_room env a data now sv =
     (case a of
        Connection s \<Rightarrow> Resolved (join_room_body env s data now sv)
      | Payload p \<Rightarrow> Thrown
      | Undefined \<Rightarrow> Thrown)"

definition leave_room ::
  "string arg \<Rightarrow> string option \<Rightarrow> server \<Rightarrow> (socket \<times> server \<times> emission list) promise" where
  "leave_room a data sv =
     (case a of
        Connection s \<Rightarrow> Resolved (leave_room_body s data sv)
      | Payload p \<Rightarrow> Thrown
      | Undefined \<Rightarrow> Thrown)"

definition get_room_users :: "string arg \<Rightarrow> string option \<Rightarrow> server \<Rightarrow> emission list promise" where
  "get_room_users a data sv =
     (case a of
        Connection s \<Rightarrow> Resolved (get_room_users_body s data sv)
      | Payload p \<Rightarrow> Thrown
      | Undefined \<Rightarrow> Thrown)"

definition request_room_users :: "string arg \<Rightarrow> string option \<Rightarrow> server \<Rightarrow> emission list promise" where
  "request_room_users a data sv =
     (case a of
        Connection s \<Rightarrow> Resolved (request_room_users_body s data sv)
      | Payload p \<Rightarrow> Thrown
      | Undefined \<Rightarrow> Thrown)"

text \<open>What a join or a leave emitted, nothing when its promise rejected.\<close>

fun emitted_by :: "(socket \<times> server \<times> emission list) promise \<Rightarrow> emission list" where
  "emitted_by (Resolved (s, sv, out)) = out"
| "emitted_by Thrown = []"

text \<open>
  The limiters of the room handler, lines 146-155, and the four listeners as registered on
  a connection \<open>s\<close>, lines 162-166, 387-391, 528-532 and 554-558:
  \<^verbatim>\<open>socket.on("join-room", rateLimiters.joinRoom("join-room", handler))\<close>. The
  connection is not among the listener's arguments.
\<close>

definition on_join_room ::
  "plan_limits \<Rightarrow> socket \<Rightarrow> join_data option \<Rightarrow> int \<Rightarrow> counter_store \<Rightarrow> server
     \<Rightarrow> counter_store \<times> (socket \<times> server \<times> emission list) promise outcome" where
  "on_join_room env s payload now cs sv =
     rateLimited (per_minute 10) ''join-room''
       (\<lambda>a data. join_room env a data now sv) (sent payload) None now cs"

definition on_leave_room ::
  "socket \<Rightarrow> string option \<Rightarrow> int \<Rightarrow> counter_store \<Rightarrow> server
     \<Rightarrow> counter_store \<times> (socket \<times> server \<times> emission list) promise outcome" where
  "on_leave_room s payload now cs sv =
     rateLimited (per_minute 10) ''leave-room''
       (\<lambda>a data. leave_room a data sv) (sent payload) None now cs"

definition on_get_room_users ::
  "socket \<Rightarrow> string option \<Rightarrow> int \<Rightarrow> counter_store \<Rightarrow> server
     \<Rightarrow> counter_store \<times> emission list promise outcome" where
  "on_get_room_users s payload now cs sv =
     rateLimited (per_minute 30) ''get-room-users''
       (\<lambda>a data. get_room_users a data sv) (sent payload) None now cs"

definition on_request_room_users ::
  "socket \<Rightarrow> string option \<Rightarrow> int \<Rightarrow> counter_store \<Rightarrow> server
     \<Rightarrow> counter_store \<times> emission list promise outcome" where
  "on_request_room_users s payload now cs sv =
     rateLimited (per_minute 30) ''request-room-users''
       (\<lambda>a data. request_room_users a data sv) (sent payload) None now cs"

text \<open>The room handler's \<^verbatim>\<open>disconnect\<close> listener, lines 622-653.\<close>

definition room_disconnect :: "socket \<Rightarrow> server \<Rightarrow> server \<times> emission list" where
  "room_disconnect s sv =
     (case (userId_of s, currentRoom s) of
        (Some userId, Some cur) \<Rightarrow>
          if cur = [] then (sv, [])
          else
            (let r1 = removeUserFromRoom userId cur (redis sv);
                 updatedUsers = getUsersInRoom cur r1
             in (sv\<lparr>redis := r1\<rparr>,
                 [Emit (ToOthers cur (sock_id s)) ''user-offline'' (PUserOffline userId ''disconnected''),
                  Emit (ToOthers cur (sock_id s)) ''user-left'' (PUserLeft cur userId updatedUsers)]))
      | _ \<Rightarrow> (sv, []))"

section \<open>Connection handlers (connection.handler.ts)\<close>

text \<open>Source: \<^verbatim>\<open>src/unnamed/part_007\<close>, lines 1-118.\<close>

text \<open>The \<^verbatim>\<open>disconnecting\<close> listener, lines 20-30.\<close>

definition disconnecting :: "socket \<Rightarrow> socket" where
  "disconnecting s =
     s\<lparr>disconnectingRooms := Some (filter (\<lambda>room. room \<noteq> sock_id s) (sock_rooms s))\<rparr>"

text \<open>\<^verbatim>\<open>[...new Set(xs)]\<close>: the entries in order of first occurrence.\<close>

fun dedupe :: "'a list \<Rightarrow> 'a list" where
  "dedupe [] = []"
| "dedupe (x # xs) = x # dedupe (removeAll x xs)"

text \<open>
  The connection handler's \<^verbatim>\<open>disconnect\<close> listener, lines 33-67. An empty array is
  truthy, so the fallback to \<^verbatim>\<open>currentRoom\<close> applies only when \<^verbatim>\<open>disconnectingRooms\<close> was
  never set.
\<close>

definition connection_disconnect :: "socket \<Rightarrow> server \<Rightarrow> server \<times> emission list" where
  "connection_disconnect s sv =
     (case userId_of s of
        None \<Rightarrow> (sv, [])
      | Some userId \<Rightarrow>
          (let affectedRooms =
                 (case disconnectingRooms s of
                    Some rs \<Rightarrow> rs
                  | None \<Rightarrow> (case currentRoom s of
                               None \<Rightarrow> []
                             | Some cur \<Rightarrow> if cur = [] then [] else [cur]));
               (r1, cleanedRooms) =
                 cleanupUserPresence userId (if sock_id s = [] then None else Some (sock_id s))
                   (redis sv)
           in (sv\<lparr>redis := r1\<rparr>,
               map (\<lambda>roomId. Emit (ToOthers roomId (sock_id s)) ''user-left''
                               (PUserLeft roomId userId (getUsersInRoom roomId r1)))
                   (dedupe (affectedRooms @ cleanedRooms)))))"

text \<open>
  A transport-level disconnect starts both \<^verbatim>\<open>disconnect\<close> listeners of the connection,
  the connection handler's first. Each runs up to its first call of the presence store
  and the two then proceed in turn, one store reply at a time. The connection handler's
  listener begins with \<^verbatim>\<open>KEYS\<close>; the room handler's \<^verbatim>\<open>HDEL\<close> on the current room is
  queued behind it, ahead of every \<^verbatim>\<open>HEXISTS\<close>, \<^verbatim>\<open>HGET\<close> and \<^verbatim>\<open>HGETALL\<close> of the
  connection handler's listener. That listener therefore finds no record of the identity
  in the current room, writes only to other rooms, which the room handler's listener
  neither reads nor writes, and reads the current room's list after the removal: the
  store and every payload are those of the room handler's listener followed by the
  connection handler's. How the emissions of one listener fall between those of the
  other depends on when the store's replies arrive, so the result keeps the two lists
  apart: the store afterwards, what the room handler's listener emitted, and what the
  connection handler's listener emitted.
\<close>

definition disconnect :: "socket \<Rightarrow> server \<Rightarrow> server \<times> emission list \<times> emission list" where
  "disconnect s sv =
     (let (sv1, by_room_handler) = room_disconnect s sv;
          (sv2, by_connection_handler) = connection_disconnect s sv1
      in (sv2, by_room_handler, by_connection_handler))"

section \<open>Chat relay (chat.handler.ts)\<close>

text \<open>Source: \<^verbatim>\<open>src/unnamed/part_003\<close>.\<close>

record chat_data =
  cd_roomId :: string
  cd_content :: string
  cd_tempId :: string

record message =
  msg_roomId :: string
  msg_userId :: string
  msg_userName :: string
  msg_content :: string
  msg_createdAt :: int

text \<open>
  The message collection. \<^verbatim>\<open>message.save()\<close> throws when the database is down or the
  document fails the schema's validation, which is a parameter here.
\<close>

record chat_store =
  chat_up :: bool
  messages :: "message list"

definition save_message :: "(message \<Rightarrow> bool) \<Rightarrow> chat_store \<Rightarrow> message \<Rightarrow> chat_store option" where
  "save_message valid cs m =
     (if chat_up cs \<and> valid m then Some (cs\<lparr>messages := messages cs @ [m]\<rparr>) else None)"

definition chat_channel :: "string \<Rightarrow> string" where
  "chat_channel roomId = ''chat:'' @ roomId"

text \<open>The \<^verbatim>\<open>chat:message\<close> handler, lines 62-108.\<close>

definition chat_message ::
  "(message \<Rightarrow> bool) \<Rightarrow> socket \<Rightarrow> chat_data option \<Rightarrow> int \<Rightarrow> chat_store \<Rightarrow> chat_store \<times> emission list" where
  "chat_message valid s data now cs =
     (let failed = Emit (ToSelf (sock_id s)) ''chat:error'' (PChatError ''Failed to send message'') in
      case data of
        None \<Rightarrow> (cs, [failed])
      | Some d \<Rightarrow>
     (case sock_user s of
        None \<Rightarrow> (cs, [Emit (ToSelf (sock_id s)) ''chat:error'' (PChatError ''User not authenticated'')])
      | Some u \<Rightarrow>
     (let m = \<lparr>msg_roomId = cd_roomId d, msg_userId = user_id u, msg_userName = user_name u,
               msg_content = cd_content d, msg_createdAt = now\<rparr>
      in case save_message valid cs m of
           None \<Rightarrow> (cs, [failed])
         | Some cs1 \<Rightarrow>
             (cs1, [Emit (ToAll (chat_channel (cd_roomId d))) ''chat:message''
                      (PChatMessage (msg_roomId m) (msg_userId m) (msg_userName m)
                         (msg_content m) (cd_tempId d))]))))"

section \<open>The model's static method and the REST routes (whiteboard.routes.ts)\<close>

text \<open>Source: \<^verbatim>\<open>src/models/Whiteboard.model.ts\<close> and \<^verbatim>\<open>src/routes/messages.routes.ts\<close>, lines
  191-572.\<close>

text \<open>
  \<^verbatim>\<open>WhiteboardSchema.statics.createSnapshot\<close>, lines 131-161 of the model: one
  \<^verbatim>\<open>findOneAndUpdate\<close> with \<^verbatim>\<open>$push\<close>, \<^verbatim>\<open>$slice: -50\<close> and \<^verbatim>\<open>upsert\<close>. It does not go
  through \<^verbatim>\<open>save\<close>, so the pre-save hook does not run.
\<close>

definition createSnapshot ::
  "string \<Rightarrow> element list \<Rightarrow> json \<Rightarrow> json \<Rightarrow> string \<Rightarrow> int \<Rightarrow> wb_world \<Rightarrow> wb_world option" where
  "createSnapshot roomId elements appState files userId now w =
     (case findOne w roomId of
        None \<Rightarrow> None
      | Some found \<Rightarrow>
          (let currentVersion = (case found of None \<Rightarrow> 0 | Some wb \<Rightarrow> wb_version wb);
               sn = \<lparr>sn_elements = elements, sn_appState = appState, sn_files = files,
                     sn_timestamp = now, sn_userId = Some userId, sn_version = currentVersion + 1\<rparr>;
               base = (case found of
                         Some wb \<Rightarrow> wb
                       | None \<Rightarrow> \<lparr>wb_roomId = roomId, wb_elements = [], wb_appState = ''{}'',
                                   wb_files = ''{}'', wb_version = 0, lastModifiedBy = None,
                                   lastModifiedAt = now, snapshots = []\<rparr>)
           in Some (w\<lparr>docs := (docs w)(roomId \<mapsto>
                        base\<lparr>snapshots := slice_last 50 (snapshots base @ [sn])\<rparr>)\<rparr>)))"

datatype response = Status nat | Saved int | SnapshotCreated

text \<open>
  \<^verbatim>\<open>POST /:roomId/save\<close>. The route sets the fields and saves; the version is left to
  the pre-save hook. The request body's \<^verbatim>\<open>elements\<close> is an array and \<^verbatim>\<open>appState\<close> an
  object by their types here, so the 400 answer does not arise.
\<close>

definition route_save ::
  "string option \<Rightarrow> string \<Rightarrow> element list \<Rightarrow> json \<Rightarrow> json option \<Rightarrow> int \<Rightarrow> server
     \<Rightarrow> server \<times> response" where
  "route_save user roomId elements appState files now sv =
     (case user of
        None \<Rightarrow> (sv, Status 401)
      | Some userId \<Rightarrow>
     (if userId = [] then (sv, Status 401)
      else
     (case Room_findById sv roomId of
        None \<Rightarrow> (sv, Status 500)
      | Some None \<Rightarrow> (sv, Status 403)
      | Some (Some room) \<Rightarrow>
     (if userId \<notin> set (room_participants room) then (sv, Status 403)
      else
     (case findOne (boards sv) roomId of
        None \<Rightarrow> (sv, Status 500)
      | Some found \<Rightarrow>
     (let t = (case found of
                 None \<Rightarrow>
                   \<lparr>tdoc = \<lparr>wb_roomId = roomId, wb_elements = elements, wb_appState = appState,
                            wb_files = files_or_empty files, wb_version = 0,
                            lastModifiedBy = Some userId, lastModifiedAt = now, snapshots = []\<rparr>,
                    mod_elements = True, mod_appState = True, mod_files = True\<rparr>
               | Some wb \<Rightarrow>
                   set_lastModifiedBy userId (set_files (files_or_empty files)
                     (set_appState appState (set_elements elements (loaded wb)))))
      in case save (boards sv) now t of
           None \<Rightarrow> (sv, Status 500)
         | Some (w1, saved) \<Rightarrow> (sv\<lparr>boards := w1\<rparr>, Saved (wb_version saved))))))))"

text \<open>
  \<^verbatim>\<open>POST /:roomId/snapshot\<close>: the snapshot is pushed onto the list and the document
  saved.
\<close>

definition route_snapshot :: "string option \<Rightarrow> string \<Rightarrow> int \<Rightarrow> server \<Rightarrow> server \<times> response" where
  "route_snapshot user roomId now sv =
     (case user of
        None \<Rightarrow> (sv, Status 401)
      | Some userId \<Rightarrow>
     (if userId = [] then (sv, Status 401)
      else
     (case Room_findById sv roomId of
        None \<Rightarrow> (sv, Status 500)
      | Some None \<Rightarrow> (sv, Status 403)
      | Some (Some room) \<Rightarrow>
     (if userId \<notin> set (room_participants room) then (sv, Status 403)
      else
     (case findOne (boards sv) roomId of
        None \<Rightarrow> (sv, Status 500)
      | Some None \<Rightarrow> (sv, Status 404)
      | Some (Some wb) \<Rightarrow>
     (let sn = \<lparr>sn_elements = wb_elements wb, sn_appState = wb_appState wb,
                sn_files = wb_files wb, sn_timestamp = now, sn_userId = Some userId,
                sn_version = wb_version wb\<rparr>
      in case save (boards sv) now (push_snapshot sn (loaded wb)) of
           None \<Rightarrow> (sv, Status 500)
         | Some (w1, saved) \<Rightarrow> (sv\<lparr>boards := w1\<rparr>, SnapshotCreated)))))))"

section \<open>Concrete connections, documents and requests\<close>

definition mk_element :: "string \<Rightarrow> element" where
  "mk_element i = \<lparr>el_id = i, el_type = ''rectangle'', el_data = ''{}'', el_customUserId = None,
                    el_userId = None, el_timestamp = None\<rparr>"

definition userA :: user where
  "userA = \<lparr>user_id = ''A'', user_name = ''Ann'', user_avatar = None, user_plan = Some ''FREE'',
             isAnonymous = False\<rparr>"

definition sockA :: socket where
  "sockA = \<lparr>sock_id = ''sA'', sock_user = Some userA, sock_rooms = [''sA'', ''R''],
             currentRoom = Some ''R'', disconnectingRooms = None\<rparr>"

definition board :: "element list \<Rightarrow> snapshot list \<Rightarrow> whiteboard" where
  "board es sns =
     \<lparr>wb_roomId = ''R'', wb_elements = es, wb_appState = ''{}'', wb_files = ''{}'',
      wb_version = 5, lastModifiedBy = None, lastModifiedAt = 0, snapshots = sns\<rparr>"

definition world_with :: "whiteboard \<Rightarrow> wb_world" where
  "world_with wb = \<lparr>docs = [''R'' \<mapsto> wb], db_up = True, updateRateLimit = Map.empty\<rparr>"

definition eleven :: "element list" where
  "eleven = map mk_element
     [''a'', ''b'', ''c'', ''d'', ''e'', ''f'', ''g'', ''h'', ''i'', ''j'', ''k'']"

definition create_req :: "string \<Rightarrow> element_data option" where
  "create_req i = Some \<lparr>ed_roomId = ''R'', ed_element = mk_element i\<rparr>"

definition replace_req :: "element list \<Rightarrow> update_data option" where
  "replace_req es =
     Some \<lparr>ud_roomId = ''R'', ud_elements = es, ud_appState = ''{}'', ud_files = None\<rparr>"

definition delete_req :: "string \<Rightarrow> delete_data option" where
  "delete_req i = Some \<lparr>dd_roomId = ''R'', dd_elementId = i\<rparr>"

definition snapshot_count :: "wb_world \<Rightarrow> string \<Rightarrow> nat" where
  "snapshot_count w roomId =
     (case docs w roomId of None \<Rightarrow> 0 | Some wb \<Rightarrow> length (snapshots wb))"

definition sticky_update_req :: "string \<Rightarrow> sticky_update_data option" where
  "sticky_update_req i =
     Some \<lparr>su_roomId = ''R'', su_stickyNote = \<lparr>note_id = i, note_rest = ''{}''\<rparr>\<rparr>"

definition sticky_delete_req :: "string \<Rightarrow> sticky_delete_data option" where
  "sticky_delete_req i = Some \<lparr>sd_roomId = ''R'', sd_stickyNoteId = i\<rparr>"

text \<open>
  What the wrapper does with the event that brought the count to \<open>current\<close>, when it is
  called with a connection and the store answers.
\<close>

definition limited_outcome ::
  "'p RateLimitOptions \<Rightarrow> string \<Rightarrow> ('p arg \<Rightarrow> 'd \<Rightarrow> 'r) \<Rightarrow> socket \<Rightarrow> 'd \<Rightarrow> nat \<Rightarrow> 'r outcome" where
  "limited_outcome config eventName handler s data current =
     (if int current > maxRequests config then Rejected (rate_limit_exceeded config eventName s)
      else Invoked (handler (Connection s) data))"

definition two_per_minute :: "string RateLimitOptions" where
  "two_per_minute = per_minute 2"

definition no_counters :: counter_store where
  "no_counters = \<lparr>cs_replies = [], cs_counters = Map.empty\<rparr>"

definition echo :: "string arg \<Rightarrow> string \<Rightarrow> string" where
  "echo a d = d"

definition userV :: user where
  "userV = \<lparr>user_id = ''V'', user_name = ''Vic'', user_avatar = None, user_plan = Some ''FREE'',
             isAnonymous = False\<rparr>"

definition userW :: user where
  "userW = \<lparr>user_id = ''W'', user_name = ''Wen'', user_avatar = None, user_plan = Some ''FREE'',
             isAnonymous = False\<rparr>"

definition guest :: user where
  "guest = \<lparr>user_id = ''6f1c2a9e-anon'', user_name = ''Anonymous-6f1c2a9e'', user_avatar = None,
             user_plan = None, isAnonymous = True\<rparr>"

definition fresh_socket :: "string \<Rightarrow> user \<Rightarrow> socket" where
  "fresh_socket sid u =
     \<lparr>sock_id = sid, sock_user = Some u, sock_rooms = [sid], currentRoom = None,
      disconnectingRooms = None\<rparr>"

text \<open>A room owned by a FREE-plan user (limit 2), with nobody present and no document.\<close>

definition server0 :: server where
  "server0 =
     \<lparr>redis = \<lparr>redis_up = True, hashes = []\<rparr>,
      rooms = [''R'' \<mapsto> \<lparr>room_ownerId = ''O'', room_participants = [''O'']\<rparr>],
      users = [''O'' \<mapsto> ''FREE''],
      boards = \<lparr>docs = Map.empty, db_up = True, updateRateLimit = Map.empty\<rparr>\<rparr>"

definition join_req :: "join_data option" where
  "join_req =
     Some \<lparr>jd_roomId = ''R'', jd_userData = Some \<lparr>hint_userName = None, hint_avatar = None\<rparr>\<rparr>"

definition presence_of :: "string \<Rightarrow> string \<Rightarrow> string \<Rightarrow> int \<Rightarrow> presence_data" where
  "presence_of uid name sid t =
     \<lparr>pd_id = uid, pd_name = name, pd_avatar = None, pd_socketId = sid, pd_joinedAt = t,
      pd_lastActivity = t\<rparr>"

text \<open>The same server with the given presence records in room R.\<close>

definition present :: "(string \<times> presence_data) list \<Rightarrow> server \<Rightarrow> server" where
  "present records sv =
     sv\<lparr>redis := \<lparr>redis_up = True,
                    hashes = (if records = [] then [] else [(''R'', records)])\<rparr>\<rparr>"

text \<open>A connection that has joined room R: it is in the channel and R is its current room.\<close>

definition socket_in_R :: "string \<Rightarrow> user \<Rightarrow> socket" where
  "socket_in_R sid u =
     \<lparr>sock_id = sid, sock_user = Some u, sock_rooms = [''R'', sid], currentRoom = Some ''R'',
      disconnectingRooms = None\<rparr>"

text \<open>
  Ann's connection sA has R as its current room; her record in R is gone (she left from a
  second connection) and Vic and Wen fill the room.
\<close>

definition full_room :: "socket \<times> server" where
  "full_room =
     (socket_in_R ''sA'' userA,
      present [(''V'', presence_of ''V'' ''Vic'' ''sC'' 1), (''W'', presence_of ''W'' ''Wen'' ''sD'' 2)]
        server0)"

text \<open>Ann has joined room R on connection sA, her only connection.\<close>

definition joined_once :: "socket \<times> server" where
  "joined_once =
     (socket_in_R ''sA'' userA, present [(''A'', presence_of ''A'' ''Ann'' ''sA'' 0)] server0)"

text \<open>
  Ann has joined room R on connection sA and then again from a second connection sB, so
  that her record carries sB while sA still has R as its current room.
\<close>

definition taken_over :: "socket \<times> server" where
  "taken_over =
     (socket_in_R ''sA'' userA, present [(''A'', presence_of ''A'' ''Ann'' ''sB'' 5)] server0)"

text \<open>
  Room R with two participants on record, as many as its owner's FREE plan allows, and
  nobody present.
\<close>

definition at_capacity :: server where
  "at_capacity =
     server0\<lparr>rooms := [''R'' \<mapsto> \<lparr>room_ownerId = ''O'', room_participants = [''O'', ''P'']\<rparr>]\<rparr>"

text \<open>Which connections are in the room's channel and in its chat channel.\<close>

definition two_members :: "string \<Rightarrow> string set" where
  "two_members room = (if room = ''R'' \<or> room = ''chat:R'' then {''sA'', ''sB''} else {})"

definition chat_req :: "chat_data option" where
  "chat_req = Some \<lparr>cd_roomId = ''R'', cd_content = ''hello'', cd_tempId = ''t1''\<rparr>"

definition empty_chat :: chat_store where
  "empty_chat = \<lparr>chat_up = True, messages = []\<rparr>"

definition any_message :: "message \<Rightarrow> bool" where
  "any_message m = True"

definition snapshot0 :: snapshot where
  "snapshot0 = \<lparr>sn_elements = [], sn_appState = ''{}'', sn_files = ''{}'', sn_timestamp = 0,
                 sn_userId = Some ''O'', sn_version = 1\<rparr>"

text \<open>The server whose room R has the given document; its owner O is a participant.\<close>

definition server_with :: "whiteboard \<Rightarrow> server" where
  "server_with wb = server0\<lparr>boards := world_with wb\<rparr>"

text \<open>
  Ann has a presence record in room R, written by an earlier connection sA, and the room
  has a document with one element at version 5.
\<close>

definition returning :: server where
  "returning =
     present [(''A'', presence_of ''A'' ''Ann'' ''sA'' 0)]
       (server_with (board [mk_element ''e1''] []))"

text \<open>Vic is present in room R; the guest is not.\<close>

definition one_present :: server where
  "one_present = present [(''V'', presence_of ''V'' ''Vic'' ''sC'' 1)] server0"

text \<open>The listener for \<^verbatim>\<open>join-room\<close> receiving the same payload at each of the given times.\<close>

fun join_room_events ::
  "socket \<Rightarrow> join_data option \<Rightarrow> int list \<Rightarrow> counter_store \<Rightarrow> server
     \<Rightarrow> counter_store \<times> (socket \<times> server \<times> emission list) promise outcome list" where
  "join_room_events s payload [] cs sv = (cs, [])"
| "join_room_events s payload (t # ts) cs sv =
     (let (cs1, r) = on_join_room env_defaults s payload t cs sv;
          (cs2, rs) = join_room_events s payload ts cs1 sv
      in (cs2, r # rs))"

section \<open>The whiteboard document and its version\<close>

lemma findIndex_None: "findIndex P xs = None \<longleftrightarrow> (\<forall>x\<in>set xs. \<not> P x)"
  by (induction xs) (auto split: option.splits)

text \<open>
  The pre-save hook keeps a snapshot list of at most 50 entries within that bound, and a
  snapshot pushed onto a full list drops the oldest entry.
\<close>

lemma pre_save_snapshots_bounded:
  "length (snapshots (tdoc t)) \<le> 50 \<Longrightarrow> length (snapshots (pre_save now t)) \<le> 50"
  by (auto simp: pre_save_def Let_def slice_last_def)

lemma pre_save_evicts_oldest:
  assumes "length (snapshots (tdoc t)) = 50" "mod_elements t" "length (wb_elements (tdoc t)) > 10"
  shows "butlast (snapshots (pre_save now t)) = tl (snapshots (tdoc t))"
  using assms by (cases "snapshots (tdoc t)") (auto simp: pre_save_def Let_def slice_last_def)

text \<open>The static \<^verbatim>\<open>createSnapshot\<close> keeps the list within 50 entries as well.\<close>

lemma createSnapshot_bounded:
  assumes "createSnapshot roomId es a f u now w = Some w'"
  shows "snapshot_count w' roomId \<le> 50"
  using assms
  by (auto simp: createSnapshot_def snapshot_count_def slice_last_def Let_def findOne_def
      split: option.splits if_splits)

text \<open>
  The replace-all handler refuses a write that follows the same identity's previous
  accepted replace-all to the same room by less than 100 ms, and leaves everything as it
  was.
\<close>

lemma whiteboard_update_throttled:
  assumes "userId_of s = Some u" "ud_roomId d \<in> set (sock_rooms s)" "db_up w"
    and "updateRateLimit w (userRateKey u (ud_roomId d)) = Some t0" "now - t0 < 100"
  shows "whiteboard_update s (Some d) now w =
           (w, [error_to s ''RATE_LIMIT_ERROR'' ''Update rate limit exceeded''])"
  using assms
  by (simp add: whiteboard_update_def checkWhiteboardAccess_def findOne_def lastUpdate_of_def)

text \<open>
  An accepted \<^verbatim>\<open>element-create\<close> raises the version of an existing document by two.
  The first \<^verbatim>\<open>whiteboard-update\<close> of a room without a document leaves it at version 4.
  The REST save route, which leaves the increment to the pre-save hook, raises the version
  by one.
\<close>

lemma element_create_adds_two:
  assumes "userId_of s = Some u" "ed_roomId d \<in> set (sock_rooms s)" "db_up w"
    and "docs w (ed_roomId d) = Some wb" "wb_roomId wb = ed_roomId d"
  shows "version_of (fst (element_create s (Some d) now w)) (ed_roomId d) = wb_version wb + 2"
  using assms
  by (simp add: element_create_def checkWhiteboardAccess_def findOne_def save_def pre_save_def
      loaded_def push_element_def bump_version_def set_lastModifiedBy_def version_of_def Let_def)

lemma first_replace_all_version:
  "version_of (boards server0) ''R'' = 0 \<and>
   version_of (fst (whiteboard_update sockA (replace_req [mk_element ''e1'']) 1000 (boards server0))) ''R'' = 4"
  by code_simp

lemma rest_save_increments_version_once:
  "snd (route_save (Some ''O'') ''R'' [mk_element ''e1''] ''{}'' None 1000 (server_with (board [] [])))
     = Saved 6"
  by code_simp

text \<open>
  C1. The claim: every accepted whiteboard mutation increments the document's version by
  exactly 1. On the code an accepted mutation that changes the element list increments it
  twice, once in the handler (\<^verbatim>\<open>whiteboard.version += 1\<close>) and once more in the pre-save
  hook that \<^verbatim>\<open>save()\<close> runs: a document at version 5 is at version 7 after one
  \<^verbatim>\<open>element-create\<close>, and the broadcast carries 7; one \<^verbatim>\<open>whiteboard-update\<close> that
  replaces the elements does the same.
\<close>

theorem element_create_increments_version_twice:
  "version_of (world_with (board [] [])) ''R'' = 5 \<and>
   element_create sockA (create_req ''e1'') 1000 (world_with (board [] [])) =
     (world_with ((board [stamp (mk_element ''e1'') ''A'' 1000] [])
        \<lparr>wb_version := 7, lastModifiedBy := Some ''A'', lastModifiedAt := 1000\<rparr>),
      [Emit (ToOthers ''R'' ''sA'') ''element-created''
         (PElementCreated ''R'' (stamp (mk_element ''e1'') ''A'' 1000) ''A'' 7)]) \<and>
   version_of (fst (whiteboard_update sockA (replace_req [mk_element ''e1'']) 1000
                      (world_with (board [] [])))) ''R'' = 7"
  by (simp add: version_of_def world_with_def board_def element_create_def sockA_def userA_def
      userId_of_def checkWhiteboardAccess_def findOne_def save_def pre_save_def loaded_def
      push_element_def bump_version_def set_lastModifiedBy_def stamp_def mk_element_def Let_def
      create_req_def replace_req_def whiteboard_update_def set_elements_def set_appState_def
      set_files_def files_or_empty_def set_lastModifiedAt_def lastUpdate_of_def userRateKey_def)

text \<open>
  C2. The claim: a whiteboard write arriving less than about 100 ms after the same
  identity's previous accepted write to the room is rejected with a rate-limit notice and
  changes nothing; a second \<^verbatim>\<open>element-create\<close> 10 ms after the first is rejected. On the code
  only \<^verbatim>\<open>whiteboard-update\<close> consults the throttle: the second \<^verbatim>\<open>element-create\<close>, 10 ms
  after the first, is applied and broadcast, and the version moves again.
\<close>

theorem second_element_create_not_throttled:
  "(let (w1, out1) = element_create sockA (create_req ''e1'') 1000 (world_with (board [] []));
        (w2, out2) = element_create sockA (create_req ''e2'') 1010 w1
    in version_of w1 ''R'' = 7 \<and> version_of w2 ''R'' = 9 \<and>
       out2 = [Emit (ToOthers ''R'' ''sA'') ''element-created''
                 (PElementCreated ''R'' (stamp (mk_element ''e2'') ''A'' 1010) ''A'' 9)])"
  by code_simp

text \<open>
  An \<^verbatim>\<open>element-update\<close> whose element id is absent from the room's whiteboard (or whose
  room has no whiteboard) changes nothing and broadcasts nothing; an authenticated caller
  that is in the room's channel receives nothing.
\<close>

lemma element_update_absent_changes_nothing:
  assumes "\<forall>wb. docs w (ed_roomId d) = Some wb \<longrightarrow>
                el_id (ed_element d) \<notin> el_id ` set (wb_elements wb)"
  shows "fst (element_update s (Some d) now w) = w
       \<and> (\<forall>e\<in>set (snd (element_update s (Some d) now w)). \<not> is_broadcast e \<and> em_event e = ''error'')
       \<and> (userId_of s \<noteq> None \<and> ed_roomId d \<in> set (sock_rooms s) \<and> db_up w
            \<longrightarrow> snd (element_update s (Some d) now w) = [])"
proof -
  have idx: "findIndex (\<lambda>el. el_id el = el_id (ed_element d)) (wb_elements wb) = None"
    if "docs w (ed_roomId d) = Some wb" for wb
    using assms that by (force simp: findIndex_None image_iff)
  show ?thesis
    by (auto simp: element_update_def checkWhiteboardAccess_def findOne_def idx error_to_def
          auth_error_def Let_def split: option.splits if_splits prod.splits bool.splits)
qed

text \<open>
  The sticky-note handlers work on the same element list. Their bodies answer an id they
  do not find with a typed notice to the caller and change nothing.
\<close>

lemma sticky_note_update_absent_is_reported:
  assumes "sock_user s = Some u" "db_up w" "docs w (su_roomId d) = Some wb"
    and "note_id (su_stickyNote d) \<notin> el_id ` set (wb_elements wb)"
  shows "sticky_note_update_body s (Some d) now w =
           (w, [error_to s ''STICKY_NOTE_NOT_FOUND'' ''Sticky note not found''])"
proof -
  have "findIndex (\<lambda>el. el_id el = note_id (su_stickyNote d) \<and> el_type el = ''sticky-note'')
          (wb_elements wb) = None"
    using assms(4) by (force simp: findIndex_None image_iff)
  then show ?thesis
    using assms(1-3) by (simp add: sticky_note_update_body_def findOne_def)
qed

lemma sticky_note_delete_absent_is_reported:
  assumes "sock_user s = Some u" "db_up w" "docs w (sd_roomId d) = Some wb"
    and "sd_stickyNoteId d \<notin> el_id ` set (wb_elements wb)"
  shows "sticky_note_delete_body s (Some d) now w =
           (w, [error_to s ''STICKY_NOTE_NOT_FOUND'' ''Sticky note not found''])"
proof -
  have "findIndex (\<lambda>el. el_id el = sd_stickyNoteId d \<and> el_type el = ''sticky-note'')
          (wb_elements wb) = None"
    using assms(4) by (force simp: findIndex_None image_iff)
  then show ?thesis
    using assms(1-3) by (simp add: sticky_note_delete_body_def findOne_def)
qed

text \<open>
  The sticky-note listeners are registered through the rate limiter, which hands the
  handler the client's payload where it expects the connection: as registered they throw
  before they look for the note.
\<close>

lemma sticky_note_listeners_as_registered:
  "threw (snd (on_sticky_note_update sockA (sticky_update_req ''zz'') 1000 no_counters
                 (world_with (board [mk_element ''e1''] []))))
   \<and> threw (snd (on_sticky_note_delete sockA (sticky_delete_req ''zz'') 1000 no_counters
                   (world_with (board [mk_element ''e1''] []))))"
  by code_simp

text \<open>
  C6. The claim: an \<^verbatim>\<open>element-update\<close> or \<^verbatim>\<open>element-delete\<close> whose element id is absent is
  a no-op and the caller gets a typed "not found" notice. On the code the update of an
  absent id sends the caller nothing at all, and the delete of an absent id still
  increments the version and broadcasts \<^verbatim>\<open>element-deleted\<close>. The bodies of
  \<^verbatim>\<open>sticky-note:update\<close> and \<^verbatim>\<open>sticky-note:delete\<close>, on the same document and the same
  absent id, change nothing and send the caller \<^verbatim>\<open>STICKY_NOTE_NOT_FOUND\<close>.
\<close>

theorem absent_element_not_reported:
  "''zz'' \<notin> el_id ` set (wb_elements (board [mk_element ''e1''] []))
   \<and> snd (element_update sockA (create_req ''zz'') 1000 (world_with (board [mk_element ''e1''] [])))
       = []
   \<and> version_of (world_with (board [mk_element ''e1''] [])) ''R'' = 5
   \<and> 5 < version_of (fst (element_delete sockA (delete_req ''zz'') 1000
                            (world_with (board [mk_element ''e1''] [])))) ''R''
   \<and> map em_event (snd (element_delete sockA (delete_req ''zz'') 1000
                           (world_with (board [mk_element ''e1''] [])))) = [''element-deleted'']
   \<and> map em_target (snd (element_delete sockA (delete_req ''zz'') 1000
                            (world_with (board [mk_element ''e1''] [])))) = [ToOthers ''R'' ''sA'']
   \<and> snd (sticky_note_update_body sockA (sticky_update_req ''zz'') 1000
             (world_with (board [mk_element ''e1''] []))) =
       [Emit (ToSelf ''sA'') ''error'' (PError ''STICKY_NOTE_NOT_FOUND'' ''Sticky note not found'')]
   \<and> version_of (fst (sticky_note_update_body sockA (sticky_update_req ''zz'') 1000
                        (world_with (board [mk_element ''e1''] [])))) ''R'' = 5
   \<and> snd (sticky_note_delete_body sockA (sticky_delete_req ''zz'') 1000
             (world_with (board [mk_element ''e1''] []))) =
       [Emit (ToSelf ''sA'') ''error'' (PError ''STICKY_NOTE_NOT_FOUND'' ''Sticky note not found'')]
   \<and> version_of (fst (sticky_note_delete_body sockA (sticky_delete_req ''zz'') 1000
                        (world_with (board [mk_element ''e1''] [])))) ''R'' = 5"
  by code_simp

text \<open>
  C8. The claim: a snapshot is appended exactly when a mutation changes more than 10
  elements, and the snapshot list never exceeds 50 entries. On the code the pre-save hook
  tests the size of the whole element list, not the number of elements changed: adding
  one element to a document of eleven appends a snapshot, and replacing twelve elements by
  none appends nothing. The hook trims the list only when it appends a snapshot itself:
  the REST snapshot route pushes a 51st entry onto a list of 50 and nothing is evicted.
\<close>

theorem snapshot_taken_on_list_length:
  "snapshot_count (fst (element_create sockA (create_req ''l'') 1000
                          (world_with (board eleven [])))) ''R'' = 1
   \<and> snapshot_count (fst (whiteboard_update sockA (replace_req []) 1000
                            (world_with (board (eleven @ [mk_element ''l'']) [])))) ''R'' = 0
   \<and> snapshot_count (boards (server_with (board [] (replicate 50 snapshot0)))) ''R'' = 50
   \<and> snapshot_count (boards (fst (route_snapshot (Some ''O'') ''R'' 1000
                                     (server_with (board [] (replicate 50 snapshot0)))))) ''R'' = 51"
  by code_simp

section \<open>The rate limiter\<close>

text \<open>
  The wrapper never refuses an event when its first argument is not a connection: it
  calls the handler whatever the counter says.
\<close>

lemma rateLimited_Payload:
  "snd (rateLimited config ev h (Payload p) d t cs) = Invoked (h (Payload p) d)"
  by (simp add: rateLimited_def split: option.splits bool.splits prod.splits)

lemma rateLimited_Undefined:
  "snd (rateLimited config ev h Undefined d t cs) = Invoked (h Undefined d)"
  by (simp add: rateLimited_def split: option.splits bool.splits prod.splits)

lemma rateLimited_sent:
  "snd (rateLimited config ev h (sent payload) d t cs) = Invoked (h (sent payload) d)"
  by (cases payload) (simp_all add: sent_def rateLimited_Payload rateLimited_Undefined)

text \<open>
  So each listener of the room handler, as registered, calls its handler on every event,
  and the handler's promise rejects: no event of a client is answered and none changes the
  presence store.
\<close>

lemma room_listeners_always_throw:
  "threw (snd (on_join_room env s payload now cs sv))"
  "threw (snd (on_leave_room s leaving now cs sv))"
  "threw (snd (on_get_room_users s asking now cs sv))"
  "threw (snd (on_request_room_users s asking now cs sv))"
  unfolding on_join_room_def on_leave_room_def on_get_room_users_def on_request_room_users_def
    rateLimited_sent
  by (simp_all add: join_room_def leave_room_def get_room_users_def request_room_users_def
      sent_def split: option.splits)

text \<open>
  Called with a connection, and with a store that answers, the wrapper counts per key in
  fixed windows.
\<close>

lemma rateLimited_fresh:
  assumes "cs_replies cs = []" "\<not> (skipAnonymous config \<and> anonymous_socket s)"
    and "keyGenerator config (Connection s) ev = Some k" "\<not> counter_live cs k t"
  shows "rateLimited config ev h (Connection s) d t cs =
           (cs\<lparr>cs_counters := (cs_counters cs)(k \<mapsto> (1, Some (t + windowMs config)))\<rparr>,
            limited_outcome config ev h s d 1)"
proof -
  let ?cs1 = "cs\<lparr>cs_counters := (cs_counters cs)(k \<mapsto> (Suc 0, None))\<rparr>"
  have i: "incr cs k t = (?cs1, Some (Suc 0))"
    using assms(1,4) by (auto simp: incr_def cs_call_def counter_live_def split: option.splits)
  have p: "pExpire ?cs1 k (windowMs config) t =
             (cs\<lparr>cs_counters := (cs_counters cs)(k \<mapsto> (1, Some (t + windowMs config)))\<rparr>, True)"
    using assms(1) by (simp add: pExpire_def cs_call_def)
  show ?thesis
    using assms(2)
    by (simp add: rateLimited_def arg_isAnonymous_def assms(3) i p limited_outcome_def)
qed

lemma rateLimited_live:
  assumes "cs_replies cs = []" "\<not> (skipAnonymous config \<and> anonymous_socket s)"
    and "keyGenerator config (Connection s) ev = Some k"
    and "cs_counters cs k = Some (n, Some e)" "t < e" "1 \<le> n"
  shows "rateLimited config ev h (Connection s) d t cs =
           (cs\<lparr>cs_counters := (cs_counters cs)(k \<mapsto> (Suc n, Some e))\<rparr>,
            limited_outcome config ev h s d (Suc n))"
proof -
  have i: "incr cs k t = (cs\<lparr>cs_counters := (cs_counters cs)(k \<mapsto> (Suc n, Some e))\<rparr>, Some (Suc n))"
    using assms(1,4,5) by (simp add: incr_def cs_call_def counter_live_def)
  show ?thesis
    using assms(2,6)
    by (simp add: rateLimited_def arg_isAnonymous_def assms(3) i limited_outcome_def)
qed

lemma run_events_Cons:
  "run_events config ev h a d (t # ts) cs =
     (fst (run_events config ev h a d ts (fst (rateLimited config ev h a d t cs))),
      snd (rateLimited config ev h a d t cs)
        # snd (run_events config ev h a d ts (fst (rateLimited config ev h a d t cs))))"
  by (simp add: split_def Let_def)

lemma run_events_in_window:
  assumes "cs_replies cs = []" "\<not> (skipAnonymous config \<and> anonymous_socket s)"
    and "keyGenerator config (Connection s) ev = Some k"
    and "cs_counters cs k = Some (n, Some e)" "1 \<le> n"
    and "\<forall>t\<in>set ts. t < e"
  shows "cs_replies (fst (run_events config ev h (Connection s) d ts cs)) = []
       \<and> cs_counters (fst (run_events config ev h (Connection s) d ts cs)) k
           = Some (n + length ts, Some e)
       \<and> snd (run_events config ev h (Connection s) d ts cs)
           = map (\<lambda>i. limited_outcome config ev h s d (n + Suc i)) [0..<length ts]"
  using assms
proof (induction ts arbitrary: cs n)
  case Nil
  then show ?case by simp
next
  case (Cons t ts)
  let ?a = "Connection s :: 'a arg"
  let ?cs1 = "cs\<lparr>cs_counters := (cs_counters cs)(k \<mapsto> (Suc n, Some e))\<rparr>"
  have step: "rateLimited config ev h ?a d t cs = (?cs1, limited_outcome config ev h s d (Suc n))"
    using Cons.prems by (intro rateLimited_live) auto
  have ih: "cs_replies (fst (run_events config ev h ?a d ts ?cs1)) = []
       \<and> cs_counters (fst (run_events config ev h ?a d ts ?cs1)) k = Some (Suc n + length ts, Some e)
       \<and> snd (run_events config ev h ?a d ts ?cs1)
           = map (\<lambda>i. limited_outcome config ev h s d (Suc n + Suc i)) [0..<length ts]"
    using Cons.prems by (intro Cons.IH) auto
  have shift: "map (\<lambda>i. limited_outcome config ev h s d (n + Suc i)) [0..<length (t # ts)]
      = limited_outcome config ev h s d (Suc n) # map (\<lambda>i. limited_outcome config ev h s d (Suc n + Suc i)) [0..<length ts]"
    by (simp add: upt_conv_Cons map_Suc_upt[symmetric] del: upt_Suc)
  show ?case
    unfolding run_events_Cons step shift using ih by simp
qed

text \<open>
  For a limiter with window W and limit N \<ge> 1 that is called with a connection it does
  not skip, starting from a key with no live counter and with a store that answers: of
  the events sent under the same event name from the first one until the window ends, the
  handler is called for the first N, and every later one is answered with the
  \<^verbatim>\<open>RATE_LIMIT_EXCEEDED\<close> error sent to the caller only; an event at or after the end of
  the window reaches the handler again.
\<close>

lemma fixed_window_on_connection:
  assumes up: "cs_replies cs = []"
    and noskip: "\<not> (skipAnonymous config \<and> anonymous_socket s)"
    and key: "keyGenerator config (Connection s) ev = Some k"
    and fresh: "\<not> counter_live cs k t0"
    and inwin: "\<forall>t\<in>set ts. t0 \<le> t \<and> t < t0 + windowMs config"
    and limit: "1 \<le> maxRequests config"
    and later: "t0 + windowMs config \<le> t'"
  shows "(\<forall>i < length (t0 # ts).
            snd (run_events config ev h (Connection s) d (t0 # ts) cs) ! i =
              (if int i < maxRequests config then Invoked (h (Connection s) d)
               else Rejected (rate_limit_exceeded config ev s)))
       \<and> snd (rateLimited config ev h (Connection s) d t'
                (fst (run_events config ev h (Connection s) d (t0 # ts) cs)))
           = Invoked (h (Connection s) d)"
proof -
  let ?a = "Connection s :: 'a arg"
  let ?e = "t0 + windowMs config"
  let ?cs1 = "cs\<lparr>cs_counters := (cs_counters cs)(k \<mapsto> (1, Some ?e))\<rparr>"
  have first: "rateLimited config ev h ?a d t0 cs = (?cs1, limited_outcome config ev h s d 1)"
    using up noskip key fresh by (rule rateLimited_fresh)
  have rest: "cs_replies (fst (run_events config ev h ?a d ts ?cs1)) = []
       \<and> cs_counters (fst (run_events config ev h ?a d ts ?cs1)) k = Some (1 + length ts, Some ?e)
       \<and> snd (run_events config ev h ?a d ts ?cs1)
           = map (\<lambda>i. limited_outcome config ev h s d (1 + Suc i)) [0..<length ts]"
    using up noskip key inwin by (intro run_events_in_window) auto
  have run: "run_events config ev h ?a d (t0 # ts) cs =
               (fst (run_events config ev h ?a d ts ?cs1),
                limited_outcome config ev h s d 1 # snd (run_events config ev h ?a d ts ?cs1))"
    by (simp add: run_events_Cons first del: run_events.simps)
  have outcomes: "snd (run_events config ev h ?a d (t0 # ts) cs) ! i =
              (if int i < maxRequests config then Invoked (h ?a d)
               else Rejected (rate_limit_exceeded config ev s))" if "i < length (t0 # ts)" for i
  proof (cases i)
    case 0
    then show ?thesis using limit by (simp add: run limited_outcome_def del: run_events.simps)
  next
    case (Suc j)
    then have "j < length ts" using that by simp
    then show ?thesis using Suc rest by (auto simp: run limited_outcome_def simp del: run_events.simps)
  qed
  let ?fin = "fst (run_events config ev h ?a d (t0 # ts) cs)"
  have fin: "cs_replies ?fin = []" "cs_counters ?fin k = Some (1 + length ts, Some ?e)"
    using rest by (simp_all add: run del: run_events.simps)
  have "\<not> counter_live ?fin k t'"
    using fin later by (simp add: counter_live_def)
  then have after: "snd (rateLimited config ev h ?a d t' ?fin) = Invoked (h ?a d)"
    using fin(1) noskip key limit by (simp add: rateLimited_fresh limited_outcome_def)
  show ?thesis using outcomes after by blast
qed

text \<open>
  When the store fails on \<^verbatim>\<open>INCR\<close>, or answers \<^verbatim>\<open>INCR\<close> and fails on \<^verbatim>\<open>PEXPIRE\<close>, the
  handler is called.
\<close>

lemma fails_open_on_incr:
  assumes "cs_replies cs = False # rs"
  shows "snd (rateLimited config ev h a d t cs) = Invoked (h a d)"
proof -
  have "incr cs k t = (cs\<lparr>cs_replies := rs\<rparr>, None)" for k
    using assms by (simp add: incr_def cs_call_def)
  then show ?thesis
    by (simp add: rateLimited_def split: option.splits bool.splits)
qed

lemma fails_open_on_pExpire:
  assumes "cs_replies cs = True # False # rs" "\<not> counter_live cs k t"
    and "keyGenerator config a ev = Some k"
  shows "snd (rateLimited config ev h a d t cs) = Invoked (h a d)"
proof -
  let ?cs1 = "cs\<lparr>cs_replies := False # rs, cs_counters := (cs_counters cs)(k \<mapsto> (Suc 0, None))\<rparr>"
  have i: "incr cs k t = (?cs1, Some (Suc 0))"
    using assms(1,2) by (auto simp: incr_def cs_call_def counter_live_def split: option.splits)
  have p: "pExpire ?cs1 k w t = (?cs1\<lparr>cs_replies := rs\<rparr>, False)" for w
    by (simp add: pExpire_def cs_call_def)
  show ?thesis
    by (simp add: rateLimited_def assms(3) i p split: option.splits bool.splits)
qed

text \<open>
  C7. The claim: the limiter is keyed by (identity, event name), passes the first N events
  of a window to the handler, answers the (N+1)th with a rate-limit error instead of
  calling the handler, and fails open. On the code every limiter is registered as the
  listener itself (\<^verbatim>\<open>socket.on("join-room", rateLimiters.joinRoom("join-room", ...))\<close>), so
  what it takes for the connection is the client's payload. The events of every
  connection and every identity are counted under the one key
  \<^verbatim>\<open>ratelimit:socket:anonymous:join-room\<close>, and the eleventh event of a window of ten
  reaches the handler like the first ten: sending the error throws, and the \<^verbatim>\<open>catch\<close>
  block that was meant for a failing store calls the handler. Called with a connection,
  the same wrapper does what the claim says: the third event of a window of two is
  answered with the error, the next window starts afresh, and a failing store lets the
  event through.
\<close>

theorem eleventh_join_room_reaches_handler:
  "maxRequests (per_minute 10 :: join_data RateLimitOptions) = 10
   \<and> windowMs (per_minute 10 :: join_data RateLimitOptions) = 60000
   \<and> map threw
        (snd (join_room_events (fresh_socket ''sC'' userV) join_req
                [0, 1000, 2000, 3000, 4000, 5000, 6000, 7000, 8000, 9000, 10000]
                no_counters server0)) =
        [True, True, True, True, True, True, True, True, True, True, True]
   \<and> cs_counters
        (fst (join_room_events (fresh_socket ''sC'' userV) join_req
                [0, 1000, 2000, 3000, 4000, 5000, 6000, 7000, 8000, 9000, 10000]
                no_counters server0))
        ''ratelimit:socket:anonymous:join-room'' = Some (11, Some 60000)
   \<and> cs_counters
        (fst (on_join_room env_defaults (fresh_socket ''sD'' userW) join_req 11000
                (fst (join_room_events (fresh_socket ''sC'' userV) join_req
                        [0, 1000, 2000, 3000, 4000, 5000, 6000, 7000, 8000, 9000, 10000]
                        no_counters server0))
                server0))
        ''ratelimit:socket:anonymous:join-room'' = Some (12, Some 60000)
   \<and> snd (run_events two_per_minute ''join-room'' echo (Connection sockA) ''R'' [0, 10, 20]
             no_counters) =
        [Invoked ''R'', Invoked ''R'',
         Rejected (Emit (ToSelf ''sA'') ''error''
                     (PError ''RATE_LIMIT_EXCEEDED''
                        ''Rate limit exceeded for join-room. Max 2 requests per 60 seconds.''))]
   \<and> cs_counters
        (fst (run_events two_per_minute ''join-room'' echo (Connection sockA) ''R'' [0, 10, 20]
                no_counters))
        ''ratelimit:socket:A:join-room'' = Some (3, Some 60000)
   \<and> snd (rateLimited two_per_minute ''join-room'' echo (Connection sockA) ''R'' 60000
             (fst (run_events two_per_minute ''join-room'' echo (Connection sockA) ''R''
                     [0, 10, 20] no_counters))) = Invoked ''R''
   \<and> snd (rateLimited two_per_minute ''join-room'' echo (Connection sockA) ''R'' 60000
             (no_counters\<lparr>cs_replies := [False]\<rparr>)) = Invoked ''R''
   \<and> snd (rateLimited two_per_minute ''join-room'' echo (Connection sockA) ''R'' 60000
             (no_counters\<lparr>cs_replies := [True, False]\<rparr>)) = Invoked ''R''"
  by code_simp

section \<open>Joining, reconnecting and disconnecting\<close>

lemma redis_up_removeUserFromRoom [simp]:
  "redis_up (removeUserFromRoom u cur r) = redis_up r"
  by (simp add: removeUserFromRoom_def Let_def)

lemma hGetAll_removeUserFromRoom:
  assumes "\<not> isUserInRoom u roomId r"
  shows "hGetAll (removeUserFromRoom u cur r) roomId = hGetAll r roomId"
proof (cases "redis_up r")
  case False
  then show ?thesis by (simp add: removeUserFromRoom_def)
next
  case True
  with assms have absent: "u \<notin> fst ` set (hGetAll r roomId)"
    by (simp add: isUserInRoom_def hExists_def hGet_def map_of_eq_None_iff)
  show ?thesis
  proof (cases "cur = roomId")
    case False
    then show ?thesis using True
      by (simp add: removeUserFromRoom_def Let_def hGetAll_def AList.update_conv' AList.delete_conv')
  next
    case same: True
    have "AList.delete u (hGetAll r roomId) = hGetAll r roomId"
      using absent by (rule AList.delete_id)
    then show ?thesis using True same
      by (auto simp: removeUserFromRoom_def Let_def hGetAll_def AList.update_conv' AList.delete_conv'
          split: option.splits)
  qed
qed

lemma isUserInRoom_cong:
  "redis_up r' = redis_up r \<Longrightarrow> hGetAll r' roomId = hGetAll r roomId
     \<Longrightarrow> isUserInRoom u roomId r' = isUserInRoom u roomId r"
  by (simp add: isUserInRoom_def hExists_def hGet_def)

lemma getUsersInRoom_cong:
  "redis_up r' = redis_up r \<Longrightarrow> hGetAll r' roomId = hGetAll r roomId
     \<Longrightarrow> getUsersInRoom roomId r' = getUsersInRoom roomId r"
  by (simp add: getUsersInRoom_def)

lemma leave_current_facts:
  assumes "leave_current s u sv = (s1, sv1, left)"
  shows "rooms sv1 = rooms sv" "users sv1 = users sv" "boards sv1 = boards sv"
    "sock_id s1 = sock_id s" "redis_up (redis sv1) = redis_up (redis sv)"
    "\<not> isUserInRoom u roomId (redis sv) \<Longrightarrow> hGetAll (redis sv1) roomId = hGetAll (redis sv) roomId"
    "\<forall>e\<in>set left. \<exists>cur. currentRoom s = Some cur \<and>
        e = Emit (ToOthers cur (sock_id s)) ''user-left''
              (PUserLeft cur u (getUsersInRoom cur (redis sv1)))"
  using assms
  by (auto simp: leave_current_def Let_def hGetAll_removeUserFromRoom split: option.splits if_splits)


text \<open>
  The body of \<^verbatim>\<open>join-room\<close> on a connection whose identity has no presence record in
  the room, when the occupancy (the larger of the presence count and the room's
  participant count) has reached the owner's plan limit and that limit is not -1
  (unlimited): the last thing sent is the \<^verbatim>\<open>PARTICIPANT_LIMIT\<close> error, to the joiner
  only; the room's presence hash is unchanged and holds no record for the joiner; and the
  only broadcast is the \<^verbatim>\<open>user-left\<close> notice to the connection's previous current room,
  if it had one.
\<close>

lemma join_at_capacity_on_connection:
  assumes uid: "userId_of s = Some userId"
    and rid: "jd_roomId d \<noteq> []"
    and new: "\<not> isUserInRoom userId (jd_roomId d) (redis sv)"
    and db: "db_up (boards sv)"
    and room: "rooms sv (jd_roomId d) = Some room"
    and owner: "users sv (room_ownerId room) = Some ownerPlan"
    and limited: "getPlanLimits env ownerPlan \<noteq> - 1"
    and full: "getPlanLimits env ownerPlan \<le> int (currentParticipantCount (jd_roomId d) room sv)"
  shows "(case join_room_body env s (Some d) now sv of
            (s', sv', out) \<Rightarrow>
              last out = Emit (ToSelf (sock_id s)) ''room:join-error''
                 (PLimitError ''PARTICIPANT_LIMIT''
                    (''Participant limit reached for '' @ ownerPlan @ '' plan'')
                    (currentParticipantCount (jd_roomId d) room sv)
                    (getPlanLimits env ownerPlan) ownerPlan)
            \<and> hGetAll (redis sv') (jd_roomId d) = hGetAll (redis sv) (jd_roomId d)
            \<and> \<not> isUserInRoom userId (jd_roomId d) (redis sv')
            \<and> (\<forall>e\<in>set (butlast out). \<exists>cur. currentRoom s = Some cur \<and>
                   e = Emit (ToOthers cur (sock_id s)) ''user-left''
                         (PUserLeft cur userId (getUsersInRoom cur (redis sv')))))"
proof -
  obtain s1 sv1 left where lc: "leave_current s userId sv = (s1, sv1, left)"
    by (cases "leave_current s userId sv") auto
  note f = leave_current_facts [OF lc]
  have same: "hGetAll (redis sv1) (jd_roomId d) = hGetAll (redis sv) (jd_roomId d)"
    using new by (rule f(6))
  have count: "currentParticipantCount (jd_roomId d) room sv1 = currentParticipantCount (jd_roomId d) room sv"
    using getUsersInRoom_cong [OF f(5) same] by (simp add: currentParticipantCount_def)
  have refused: "limit_check env s1 (jd_roomId d) sv1 =
      Some (Emit (ToSelf (sock_id s)) ''room:join-error''
                 (PLimitError ''PARTICIPANT_LIMIT''
                    (''Participant limit reached for '' @ ownerPlan @ '' plan'')
                    (currentParticipantCount (jd_roomId d) room sv)
                    (getPlanLimits env ownerPlan) ownerPlan))"
    using db room owner limited full
    by (simp add: limit_check_def Room_findById_def User_findById_def f(1-4) count canAddParticipant_def Let_def)
  have res: "join_room_body env s (Some d) now sv = (s1, sv1, left @ [the (limit_check env s1 (jd_roomId d) sv1)])"
    using uid rid new by (simp add: join_room_body_def lc refused)
  have still: "\<not> isUserInRoom userId (jd_roomId d) (redis sv1)"
    using new isUserInRoom_cong [OF f(5) same] by simp
  show ?thesis
    using same still f(7) by (simp add: res refused)
qed

text \<open>
  The body leaves the connection's current room, and tells that room, before it checks
  the capacity. When the current room is the room being joined (the identity's record
  having been removed through another connection), the refused join broadcasts
  \<^verbatim>\<open>user-left\<close> to the room, and the refused connection is out of the room's channel
  while the room stays its current room.
\<close>

lemma refused_join_has_left_current_room:
  "\<not> isUserInRoom ''A'' ''R'' (redis (snd full_room))
   \<and> currentRoom (fst full_room) = Some ''R''
   \<and> ''R'' \<in> set (sock_rooms (fst full_room))
   \<and> length (getUsersInRoom ''R'' (redis (snd full_room))) = 2
   \<and> getPlanLimits env_defaults ''FREE'' = 2
   \<and> snd (snd (join_room_body env_defaults (fst full_room) join_req 3 (snd full_room))) =
       [Emit (ToOthers ''R'' ''sA'') ''user-left''
          (PUserLeft ''R'' ''A''
             [presence_of ''V'' ''Vic'' ''sC'' 1, presence_of ''W'' ''Wen'' ''sD'' 2]),
        Emit (ToSelf ''sA'') ''room:join-error''
          (PLimitError ''PARTICIPANT_LIMIT'' ''Participant limit reached for FREE plan'' 2 2
             ''FREE'')]
   \<and> currentRoom (fst (join_room_body env_defaults (fst full_room) join_req 3 (snd full_room))) =
       Some ''R''
   \<and> ''R'' \<notin> set (sock_rooms
                    (fst (join_room_body env_defaults (fst full_room) join_req 3 (snd full_room))))"
  by code_simp

text \<open>
  C3. The claim: a join-room request made when the occupancy has reached the owner's plan
  limit is rejected with a \<^verbatim>\<open>PARTICIPANT_LIMIT\<close> error reported to the joiner, writes no
  presence record and sends no broadcast to the room. On the code the listener for
  \<^verbatim>\<open>join-room\<close> is the rate limiter's wrapper, which hands the handler the client's
  payload where the handler expects the connection: for a room whose two participants on
  record reach the limit of its owner's FREE plan, the handler throws at its first
  \<^verbatim>\<open>socket.emit\<close> and the joiner is sent nothing, no \<^verbatim>\<open>PARTICIPANT_LIMIT\<close> error
  included. The handler called with the connection sends the joiner the typed error and
  nothing else, and writes no record.
\<close>

theorem join_at_capacity_not_answered:
  "rooms at_capacity ''R'' = Some \<lparr>room_ownerId = ''O'', room_participants = [''O'', ''P'']\<rparr>
   \<and> users at_capacity ''O'' = Some ''FREE''
   \<and> getPlanLimits env_defaults ''FREE'' = 2
   \<and> currentParticipantCount ''R'' \<lparr>room_ownerId = ''O'', room_participants = [''O'', ''P'']\<rparr>
        at_capacity = 2
   \<and> threw (snd (on_join_room env_defaults (fresh_socket ''sC'' userV) join_req 0 no_counters
                   at_capacity))
   \<and> emitted_by (join_room env_defaults (Connection (fresh_socket ''sC'' userV)) join_req 0
                   at_capacity) =
       [Emit (ToSelf ''sC'') ''room:join-error''
          (PLimitError ''PARTICIPANT_LIMIT'' ''Participant limit reached for FREE plan'' 2 2
             ''FREE'')]
   \<and> (case join_room env_defaults (Connection (fresh_socket ''sC'' userV)) join_req 0 at_capacity of
         Resolved (s', sv', out) \<Rightarrow> hashes (redis sv') = []
       | Thrown \<Rightarrow> False)"
  by code_simp

text \<open>
  The states of the two connections below are those that the bodies of \<^verbatim>\<open>join-room\<close>
  and \<^verbatim>\<open>leave-room\<close> produce on a connection: Ann joins room R on connection sA; from a
  second connection sB she leaves and joins again.
\<close>

lemma taken_over_by_joining_twice:
  "(let (a1, sv1, out1) = join_room_body env_defaults (fresh_socket ''sA'' userA) join_req 0 server0;
        (b1, sv2, out2) = leave_room_body (fresh_socket ''sB'' userA) (Some ''R'') sv1;
        (b2, sv3, out3) = join_room_body env_defaults b1 join_req 5 sv2
    in a1 = fst joined_once \<and> hashes (redis sv1) = hashes (redis (snd joined_once))
       \<and> a1 = fst taken_over \<and> hashes (redis sv3) = hashes (redis (snd taken_over)))"
  by code_simp

text \<open>
  C4. The claim: a disconnect removes presence records only where the stored socket id is
  the disconnecting connection's, leaves a record written by another connection of the
  same identity untouched, and does not broadcast the departure twice. On the code the
  connection handler's listener compares socket ids, but the room handler's listener
  removes the identity's record from the connection's current room without comparing
  them, and both listeners broadcast \<^verbatim>\<open>user-left\<close>: connection sA disconnects, the record
  that connection sB wrote is removed, the room hears \<^verbatim>\<open>user-left\<close> twice, and a
  repeated disconnect signal broadcasts again. The disconnect of an identity's only
  connection is announced twice as well.
\<close>

theorem disconnect_removes_other_connections_record:
  "hGet (redis (snd taken_over)) ''R'' ''A'' = Some (presence_of ''A'' ''Ann'' ''sB'' 5)
   \<and> sock_id (fst taken_over) = ''sA''
   \<and> currentRoom (fst taken_over) = Some ''R''
   \<and> hGet (redis (fst (connection_disconnect (disconnecting (fst taken_over)) (snd taken_over))))
         ''R'' ''A'' = Some (presence_of ''A'' ''Ann'' ''sB'' 5)
   \<and> hGet (redis (fst (room_disconnect (disconnecting (fst taken_over)) (snd taken_over))))
         ''R'' ''A'' = None
   \<and> hGet (redis (fst (disconnect (disconnecting (fst taken_over)) (snd taken_over))))
         ''R'' ''A'' = None
   \<and> map em_event (fst (snd (disconnect (disconnecting (fst taken_over)) (snd taken_over)))) =
       [''user-offline'', ''user-left'']
   \<and> map em_event (snd (snd (disconnect (disconnecting (fst taken_over)) (snd taken_over)))) =
       [''user-left'']
   \<and> map em_target (fst (snd (disconnect (disconnecting (fst taken_over)) (snd taken_over)))) =
       [ToOthers ''R'' ''sA'', ToOthers ''R'' ''sA'']
   \<and> map em_target (snd (snd (disconnect (disconnecting (fst taken_over)) (snd taken_over)))) =
       [ToOthers ''R'' ''sA'']
   \<and> map em_event
         (fst (snd (disconnect (disconnecting (fst taken_over))
                      (fst (disconnect (disconnecting (fst taken_over)) (snd taken_over)))))) =
       [''user-offline'', ''user-left'']
   \<and> map em_event
         (snd (snd (disconnect (disconnecting (fst taken_over))
                      (fst (disconnect (disconnecting (fst taken_over)) (snd taken_over)))))) =
       [''user-left'']
   \<and> map em_event (fst (snd (disconnect (disconnecting (fst joined_once)) (snd joined_once)))) =
       [''user-offline'', ''user-left'']
   \<and> map em_event (snd (snd (disconnect (disconnecting (fst joined_once)) (snd joined_once)))) =
       [''user-left'']
   \<and> map em_target (fst (snd (disconnect (disconnecting (fst joined_once)) (snd joined_once)))) =
       [ToOthers ''R'' ''sA'', ToOthers ''R'' ''sA'']
   \<and> map em_target (snd (snd (disconnect (disconnecting (fst joined_once)) (snd joined_once)))) =
       [ToOthers ''R'' ''sA'']"
  by code_simp

text \<open>
  The presence store starts well formed and every write of \<^verbatim>\<open>presence.util.ts\<close> keeps
  it so: a room's hash never holds two records under one user id.
\<close>

lemma wf_redis_iff:
  "wf_redis r \<longleftrightarrow>
     distinct (map fst (hashes r)) \<and>
     (\<forall>roomId h. map_of (hashes r) roomId = Some h \<longrightarrow> distinct (map fst h))"
  by (auto simp: wf_redis_def list_all_iff dest: map_of_SomeD)

lemma wf_redis_empty: "wf_redis \<lparr>redis_up = up, hashes = []\<rparr>"
  by (simp add: wf_redis_def)

lemma wf_redis_hGetAll: "wf_redis r \<Longrightarrow> distinct (map fst (hGetAll r roomId))"
  by (auto simp: wf_redis_iff hGetAll_def split: option.splits)

lemma wf_redis_update:
  assumes "wf_redis r" "distinct (map fst h)"
  shows "wf_redis (r\<lparr>hashes := AList.update roomId h (hashes r)\<rparr>)"
proof -
  have "distinct (map fst h')"
    if "map_of (AList.update roomId h (hashes r)) room' = Some h'" for room' h'
  proof (cases "room' = roomId")
    case True
    then show ?thesis using that assms(2) by (simp add: AList.update_conv')
  next
    case False
    then have "map_of (hashes r) room' = Some h'" using that by (simp add: AList.update_conv')
    then show ?thesis using assms(1) unfolding wf_redis_iff by blast
  qed
  moreover have "distinct (map fst (AList.update roomId h (hashes r)))"
    using assms(1) by (simp add: wf_redis_iff AList.distinct_update)
  ultimately show ?thesis unfolding wf_redis_iff by simp
qed

lemma wf_redis_delete:
  assumes "wf_redis r"
  shows "wf_redis (r\<lparr>hashes := AList.delete roomId (hashes r)\<rparr>)"
proof -
  have "distinct (map fst h')"
    if "map_of (AList.delete roomId (hashes r)) room' = Some h'" for room' h'
  proof -
    have "map_of (hashes r) room' = Some h'"
      using that by (cases "room' = roomId") (simp_all add: AList.delete_conv')
    then show ?thesis using assms unfolding wf_redis_iff by blast
  qed
  moreover have "distinct (map fst (AList.delete roomId (hashes r)))"
    using assms by (simp add: wf_redis_iff AList.distinct_delete)
  ultimately show ?thesis unfolding wf_redis_iff by simp
qed

lemma wf_redis_addUserToRoom: "wf_redis r \<Longrightarrow> wf_redis (addUserToRoom u roomId v r)"
  by (simp add: addUserToRoom_def hSet_def wf_redis_update wf_redis_hGetAll AList.distinct_update)

lemma wf_redis_removeUserFromRoom: "wf_redis r \<Longrightarrow> wf_redis (removeUserFromRoom u roomId r)"
  by (simp add: removeUserFromRoom_def Let_def wf_redis_update wf_redis_delete wf_redis_hGetAll
      AList.distinct_delete)

lemma one_entry_per_key:
  "distinct (map fst h) \<Longrightarrow> u \<in> fst ` set h
     \<Longrightarrow> length (filter (\<lambda>p. pd_id p = u) (map (\<lambda>(userId, parsedUser). parsedUser\<lparr>pd_id := userId\<rparr>) h)) = 1"
proof (induction h)
  case Nil
  then show ?case by simp
next
  case (Cons kv h)
  obtain k v where kv: "kv = (k, v)" by (cases kv)
  show ?case
  proof (cases "k = u")
    case True
    then have "u \<notin> fst ` set h" using Cons.prems kv by auto
    then have "filter (\<lambda>p. pd_id p = u) (map (\<lambda>(userId, parsedUser). parsedUser\<lparr>pd_id := userId\<rparr>) h) = []"
      by (force simp: filter_empty_conv)
    then show ?thesis using True kv by simp
  next
    case False
    then show ?thesis using Cons kv by auto
  qed
qed

text \<open>
  The body of \<^verbatim>\<open>join-room\<close> on a connection whose identity already has a presence
  record for the room, when the database answers: the connection and the stores are
  unchanged, the room state is sent back to the calling connection as \<^verbatim>\<open>room-joined\<close>,
  the other members get \<^verbatim>\<open>user-restored\<close> and nothing else is sent (no \<^verbatim>\<open>user-joined\<close>),
  and the room's user list holds exactly one entry for the identity.
\<close>

lemma rejoin_short_circuits_on_connection:
  assumes uid: "userId_of s = Some userId"
    and rid: "jd_roomId d \<noteq> []"
    and present: "isUserInRoom userId (jd_roomId d) (redis sv)"
    and wf: "wf_redis (redis sv)"
    and db: "db_up (boards sv)"
  shows "join_room_body env s (Some d) now sv =
           (s, sv,
            [Emit (ToSelf (sock_id s)) ''room-joined''
               (PRoomJoined (jd_roomId d) (getUsersInRoom (jd_roomId d) (redis sv))
                  (whiteboardState_of (docs (boards sv) (jd_roomId d)))),
             Emit (ToOthers (jd_roomId d) (sock_id s)) ''user-restored''
               (PUserRestored (jd_roomId d) userId
                  (case sock_user s of
                     None \<Rightarrow> ''Unknown User''
                   | Some u \<Rightarrow> if user_name u = [] then ''Unknown User'' else user_name u))])
       \<and> length (filter (\<lambda>p. pd_id p = userId)
                   (getUsersInRoom (jd_roomId d)
                      (redis (fst (snd (join_room_body env s (Some d) now sv)))))) = 1"
proof -
  have res: "join_room_body env s (Some d) now sv =
           (s, sv,
            [Emit (ToSelf (sock_id s)) ''room-joined''
               (PRoomJoined (jd_roomId d) (getUsersInRoom (jd_roomId d) (redis sv))
                  (whiteboardState_of (docs (boards sv) (jd_roomId d)))),
             Emit (ToOthers (jd_roomId d) (sock_id s)) ''user-restored''
               (PUserRestored (jd_roomId d) userId
                  (case sock_user s of
                     None \<Rightarrow> ''Unknown User''
                   | Some u \<Rightarrow> if user_name u = [] then ''Unknown User'' else user_name u))])"
    using uid rid present db by (simp add: join_room_body_def join_reconnect_def findOne_def Let_def)
  have up: "redis_up (redis sv)" and mem: "userId \<in> fst ` set (hGetAll (redis sv) (jd_roomId d))"
    using present by (auto simp: isUserInRoom_def hExists_def hGet_def map_of_eq_None_iff split: if_splits)
  have "length (filter (\<lambda>p. pd_id p = userId) (getUsersInRoom (jd_roomId d) (redis sv))) = 1"
    using one_entry_per_key [OF wf_redis_hGetAll [OF wf] mem] up by (simp add: getUsersInRoom_def)
  then show ?thesis by (simp add: res)
qed

text \<open>
  When the presence store does not answer, \<^verbatim>\<open>isUserInRoom\<close> reports the identity
  absent (its \<^verbatim>\<open>catch\<close> block returns \<^verbatim>\<open>false\<close>): the body takes the full join path
  and the others are sent \<^verbatim>\<open>user-joined\<close>, although the record is there.
\<close>

lemma rejoin_with_store_down_is_a_full_join:
  "hashes (redis returning) = [(''R'', [(''A'', presence_of ''A'' ''Ann'' ''sA'' 0)])]
   \<and> \<not> isUserInRoom ''A'' ''R'' (redis (returning\<lparr>redis := (redis returning)\<lparr>redis_up := False\<rparr>\<rparr>))
   \<and> map em_event
         (snd (snd (join_room_body env_defaults (fresh_socket ''sB'' userA) join_req 9
                      (returning\<lparr>redis := (redis returning)\<lparr>redis_up := False\<rparr>\<rparr>)))) =
       [''user-joined'', ''user-online'', ''room-joined'']"
  by code_simp

text \<open>
  C5. The claim: a join-room request from an identity that already has a presence record
  for the room short-circuits: one record afterwards, the current room state sent back to
  the reconnecting connection, and \<^verbatim>\<open>user-restored\<close> (not \<^verbatim>\<open>user-joined\<close>) broadcast to
  the others. On the code the listener for \<^verbatim>\<open>join-room\<close> is the rate limiter's wrapper,
  which hands the handler the client's payload where the handler expects the connection:
  the handler throws before it looks at the presence store, the reconnecting connection
  is sent no room state and the others no \<^verbatim>\<open>user-restored\<close>. The handler called with the
  connection does what the claim says: Ann's record stays the only one, her new
  connection is sent the room's element and version 5, and the others are sent
  \<^verbatim>\<open>user-restored\<close>.
\<close>

theorem rejoin_not_answered:
  "isUserInRoom ''A'' ''R'' (redis returning)
   \<and> getUsersInRoom ''R'' (redis returning) = [presence_of ''A'' ''Ann'' ''sA'' 0]
   \<and> docs (boards returning) ''R'' = Some (board [mk_element ''e1''] [])
   \<and> threw (snd (on_join_room env_defaults (fresh_socket ''sB'' userA) join_req 9 no_counters
                   returning))
   \<and> emitted_by (join_room env_defaults (Connection (fresh_socket ''sB'' userA)) join_req 9
                   returning) =
       [Emit (ToSelf ''sB'') ''room-joined''
          (PRoomJoined ''R'' [presence_of ''A'' ''Ann'' ''sA'' 0]
             \<lparr>ws_elements = [mk_element ''e1''], ws_appState = ''{}'', ws_files = ''{}'',
              ws_version = 5\<rparr>),
        Emit (ToOthers ''R'' ''sB'') ''user-restored'' (PUserRestored ''R'' ''A'' ''Ann'')]
   \<and> (case join_room env_defaults (Connection (fresh_socket ''sB'' userA)) join_req 9 returning of
         Resolved (s', sv', out) \<Rightarrow>
           hashes (redis sv') = [(''R'', [(''A'', presence_of ''A'' ''Ann'' ''sA'' 0)])]
       | Thrown \<Rightarrow> False)"
  by code_simp

text \<open>
  The bodies of the two handlers on a connection: \<^verbatim>\<open>get-room-users\<close> answers any
  connection, for any room id, with that room's presence list and checks nothing about
  the caller; \<^verbatim>\<open>request-room-users\<close> answers an identity that is not present in the room
  with the \<^verbatim>\<open>UNAUTHORIZED\<close> error.
\<close>

lemma room_users_on_connection:
  "get_room_users_body s (Some roomId) sv =
     [Emit (ToSelf (sock_id s)) ''room-users'' (PRoomUsers roomId (getUsersInRoom roomId (redis sv)))]
   \<and> (userId_of s = Some userId \<and> roomId \<noteq> [] \<and> \<not> isUserInRoom userId roomId (redis sv)
        \<longrightarrow> request_room_users_body s (Some roomId) sv =
              [error_to s ''UNAUTHORIZED'' ''Must be in room to request user list''])"
  by (simp add: get_room_users_body_def request_room_users_body_def)

text \<open>
  C10. The claim: \<^verbatim>\<open>get-room-users\<close> returns the room's presence list to any caller with
  an identity, member or not, whereas \<^verbatim>\<open>request-room-users\<close> rejects a caller that is not
  present in the room with \<^verbatim>\<open>UNAUTHORIZED\<close>. On the code both listeners are the rate
  limiter's wrapper, which hands the handler the client's payload where the handler
  expects the connection: a guest that asks for the users of room R is sent neither the
  list nor the error, by either event. The handlers called with the connection do what
  the claim says.
\<close>

theorem room_users_not_answered:
  "anonymous_socket (fresh_socket ''sG'' guest)
   \<and> userId_of (fresh_socket ''sG'' guest) = Some ''6f1c2a9e-anon''
   \<and> \<not> isUserInRoom ''6f1c2a9e-anon'' ''R'' (redis one_present)
   \<and> threw (snd (on_get_room_users (fresh_socket ''sG'' guest) (Some ''R'') 0 no_counters
                   one_present))
   \<and> threw (snd (on_request_room_users (fresh_socket ''sG'' guest) (Some ''R'') 0 no_counters
                   one_present))
   \<and> emitted (get_room_users (Connection (fresh_socket ''sG'' guest)) (Some ''R'') one_present) =
       [Emit (ToSelf ''sG'') ''room-users''
          (PRoomUsers ''R'' [presence_of ''V'' ''Vic'' ''sC'' 1])]
   \<and> emitted (request_room_users (Connection (fresh_socket ''sG'' guest)) (Some ''R'')
                one_present) =
       [Emit (ToSelf ''sG'') ''error''
          (PError ''UNAUTHORIZED'' ''Must be in room to request user list'')]"
  by code_simp

section \<open>Who receives a broadcast\<close>

lemma whiteboard_update_targets:
  "e \<in> set (snd (whiteboard_update s data now w)) \<Longrightarrow>
     (em_target e = ToSelf (sock_id s) \<and> em_event e = ''error'')
     \<or> (\<exists>room. em_target e = ToOthers room (sock_id s))"
  by (auto simp: whiteboard_update_def checkWhiteboardAccess_def error_to_def auth_error_def Let_def
      split: option.splits if_splits prod.splits bool.splits)

lemma element_create_targets:
  "e \<in> set (snd (element_create s data now w)) \<Longrightarrow>
     (em_target e = ToSelf (sock_id s) \<and> em_event e = ''error'')
     \<or> (\<exists>room. em_target e = ToOthers room (sock_id s))"
  by (auto simp: element_create_def checkWhiteboardAccess_def error_to_def auth_error_def Let_def
      split: option.splits if_splits prod.splits bool.splits)

lemma element_update_targets:
  "e \<in> set (snd (element_update s data now w)) \<Longrightarrow>
     (em_target e = ToSelf (sock_id s) \<and> em_event e = ''error'')
     \<or> (\<exists>room. em_target e = ToOthers room (sock_id s))"
  by (auto simp: element_update_def checkWhiteboardAccess_def error_to_def auth_error_def Let_def
      split: option.splits if_splits prod.splits bool.splits)

lemma element_delete_targets:
  "e \<in> set (snd (element_delete s data now w)) \<Longrightarrow>
     (em_target e = ToSelf (sock_id s) \<and> em_event e = ''error'')
     \<or> (\<exists>room. em_target e = ToOthers room (sock_id s))"
  by (auto simp: element_delete_def checkWhiteboardAccess_def error_to_def auth_error_def Let_def
      split: option.splits if_splits prod.splits bool.splits)

lemma not_to_self:
  assumes "(em_target e = ToSelf sid \<and> em_event e = ''error'') \<or> (\<exists>room. em_target e = ToOthers room sid)"
    and "em_event e \<noteq> ''error''"
  shows "sid \<notin> recipients chan (em_target e)"
  using assms by auto

lemma leave_current_sock_id: "leave_current s u sv = (s1, sv1, left) \<Longrightarrow> sock_id s1 = sock_id s"
  by (auto simp: leave_current_def Let_def split: option.splits if_splits)

lemma leave_current_events:
  "leave_current s u sv = (s1, sv1, left) \<Longrightarrow> e \<in> set left \<Longrightarrow> em_event e = ''user-left''"
  by (auto simp: leave_current_def Let_def split: option.splits if_splits)

lemma limit_check_event:
  "limit_check env s roomId sv = Some e \<Longrightarrow> em_event e = ''room:join-error''"
  by (auto simp: limit_check_def Let_def split: option.splits if_splits)

lemma join_admit_user_joined:
  "join_admit s u d now sv = (s2, sv2, out) \<Longrightarrow> e \<in> set out \<Longrightarrow> em_event e = ''user-joined''
     \<Longrightarrow> em_target e = ToOthers (jd_roomId d) (sock_id s)"
  by (auto simp: join_admit_def Let_def join_room_error_def error_to_def split: option.splits)

lemma join_room_body_user_joined:
  assumes "e \<in> set (snd (snd (join_room_body env s data now sv)))" "em_event e = ''user-joined''"
  shows "\<exists>room. em_target e = ToOthers room (sock_id s)"
proof (cases data)
  case None
  then show ?thesis using assms by (simp add: join_room_body_def error_to_def)
next
  case (Some d)
  show ?thesis
  proof (cases "jd_roomId d = [] \<or> userId_of s = None")
    case True
    then show ?thesis using assms Some
      by (auto simp: join_room_body_def error_to_def split: option.splits if_splits)
  next
    case False
    then obtain u where u: "userId_of s = Some u" and rid: "jd_roomId d \<noteq> []" by auto
    show ?thesis
    proof (cases "isUserInRoom u (jd_roomId d) (redis sv)")
      case True
      then show ?thesis using assms Some u rid
        by (auto simp: join_room_body_def join_reconnect_def join_room_error_def error_to_def Let_def
            split: option.splits)
    next
      case new: False
      obtain s1 sv1 left where lc: "leave_current s u sv = (s1, sv1, left)"
        by (cases "leave_current s u sv") auto
      have notleft: "e \<notin> set left"
        using leave_current_events [OF lc] assms(2) by auto
      show ?thesis
      proof (cases "limit_check env s1 (jd_roomId d) sv1")
        case (Some refusal)
        then have "e = refusal"
          using assms(1) \<open>data = Some d\<close> u rid new lc notleft by (simp add: join_room_body_def)
        then show ?thesis using limit_check_event [OF Some] assms(2) by simp
      next
        case None
        obtain s2 sv2 out where ja: "join_admit s1 u d now sv1 = (s2, sv2, out)"
          by (cases "join_admit s1 u d now sv1") auto
        have "e \<in> set out"
          using assms(1) \<open>data = Some d\<close> u rid new lc notleft None ja by (simp add: join_room_body_def)
        then show ?thesis
          using join_admit_user_joined [OF ja _ assms(2)] leave_current_sock_id [OF lc] by auto
      qed
    qed
  qed
qed

lemma join_room_user_joined:
  assumes "e \<in> set (emitted_by (join_room env (Connection s) data now sv))"
    and "em_event e = ''user-joined''"
  shows "\<exists>room. em_target e = ToOthers room (sock_id s)"
proof -
  obtain s' sv' out where r: "join_room_body env s data now sv = (s', sv', out)"
    by (cases "join_room_body env s data now sv") auto
  then have "e \<in> set (snd (snd (join_room_body env s data now sv)))"
    using assms(1) by (simp add: join_room_def)
  then show ?thesis using assms(2) by (rule join_room_body_user_joined)
qed

text \<open>
  C9. Whoever is in the channels: a \<^verbatim>\<open>whiteboard-updated\<close>, \<^verbatim>\<open>element-created\<close>,
  \<^verbatim>\<open>element-updated\<close> or \<^verbatim>\<open>element-deleted\<close> event that a connection's write produces,
  and the \<^verbatim>\<open>user-joined\<close> event that its join produces, are never delivered to that
  connection; a \<^verbatim>\<open>chat:message\<close> event is delivered to exactly the connections in the
  room's chat channel, the sender's included when it is in the channel. The
  \<^verbatim>\<open>user-joined\<close> event is the one the \<^verbatim>\<open>join-room\<close> handler sends when it is called with
  the connection; the listener as registered sends nothing to anyone, the joiner included.
\<close>

theorem broadcast_audience:
  "(\<forall>e\<in>set (snd (whiteboard_update s ud now w)).
       em_event e = ''whiteboard-updated'' \<longrightarrow> sock_id s \<notin> recipients chan (em_target e))
   \<and> (\<forall>e\<in>set (snd (element_create s ed now w)).
       em_event e = ''element-created'' \<longrightarrow> sock_id s \<notin> recipients chan (em_target e))
   \<and> (\<forall>e\<in>set (snd (element_update s ed now w)).
       em_event e = ''element-updated'' \<longrightarrow> sock_id s \<notin> recipients chan (em_target e))
   \<and> (\<forall>e\<in>set (snd (element_delete s dd now w)).
       em_event e = ''element-deleted'' \<longrightarrow> sock_id s \<notin> recipients chan (em_target e))
   \<and> (\<forall>e\<in>set (emitted_by (join_room env (Connection s) jd now sv)).
       em_event e = ''user-joined'' \<longrightarrow> sock_id s \<notin> recipients chan (em_target e))
   \<and> (\<forall>e\<in>set (snd (chat_message valid s (Some cd) now cs)).
       em_event e = ''chat:message'' \<longrightarrow>
         recipients chan (em_target e) = chan (chat_channel (cd_roomId cd)))
   \<and> threw (snd (on_join_room env s payload now counters sv))"
proof (intro conjI ballI impI)
  fix e assume "e \<in> set (snd (whiteboard_update s ud now w))" "em_event e = ''whiteboard-updated''"
  then show "sock_id s \<notin> recipients chan (em_target e)"
    using whiteboard_update_targets [of e s ud now w] by (intro not_to_self) auto
next
  fix e assume "e \<in> set (snd (element_create s ed now w))" "em_event e = ''element-created''"
  then show "sock_id s \<notin> recipients chan (em_target e)"
    using element_create_targets [of e s ed now w] by (intro not_to_self) auto
next
  fix e assume "e \<in> set (snd (element_update s ed now w))" "em_event e = ''element-updated''"
  then show "sock_id s \<notin> recipients chan (em_target e)"
    using element_update_targets [of e s ed now w] by (intro not_to_self) auto
next
  fix e assume "e \<in> set (snd (element_delete s dd now w))" "em_event e = ''element-deleted''"
  then show "sock_id s \<notin> recipients chan (em_target e)"
    using element_delete_targets [of e s dd now w] by (intro not_to_self) auto
next
  fix e assume "e \<in> set (emitted_by (join_room env (Connection s) jd now sv))"
    "em_event e = ''user-joined''"
  then show "sock_id s \<notin> recipients chan (em_target e)"
    using join_room_user_joined [of e env s jd now sv] by auto
next
  fix e assume "e \<in> set (snd (chat_message valid s (Some cd) now cs))" "em_event e = ''chat:message''"
  then show "recipients chan (em_target e) = chan (chat_channel (cd_roomId cd))"
    by (auto simp: chat_message_def Let_def split: option.splits)
next
  show "threw (snd (on_join_room env s payload now counters sv))"
    by (rule room_listeners_always_throw)
qed


theorem broadcast_audience_witness:
  "map em_event (snd (whiteboard_update sockA (replace_req [mk_element ''e1'']) 1000
                        (world_with (board [] [])))) = [''whiteboard-updated'']
   \<and> ''sA'' \<notin> recipients two_members
        (em_target (hd (snd (whiteboard_update sockA (replace_req [mk_element ''e1'']) 1000
                               (world_with (board [] []))))))
   \<and> recipients two_members
        (em_target (hd (snd (whiteboard_update sockA (replace_req [mk_element ''e1'']) 1000
                               (world_with (board [] [])))))) = {''sB''}
   \<and> map em_event (emitted_by (join_room env_defaults (Connection sockA) join_req 1000 server0)) =
        [''user-left'', ''user-joined'', ''user-online'', ''room-joined'']
   \<and> ''sA'' \<notin> recipients two_members
        (em_target (emitted_by (join_room env_defaults (Connection sockA) join_req 1000 server0) ! 1))
   \<and> snd (chat_message any_message sockA chat_req 1000 empty_chat) =
        [Emit (ToAll ''chat:R'') ''chat:message'' (PChatMessage ''R'' ''A'' ''Ann'' ''hello'' ''t1'')]
   \<and> recipients two_members
        (em_target (hd (snd (chat_message any_message sockA chat_req 1000 empty_chat)))) =
        {''sA'', ''sB''}"
proof -
  let ?ud = "replace_req [mk_element ''e1'']"
  let ?w = "world_with (board [] [])"
  let ?cd = "\<lparr>cd_roomId = ''R'', cd_content = ''hello'', cd_tempId = ''t1''\<rparr>"
  let ?joined = "emitted_by (join_room env_defaults (Connection sockA) join_req 1000 server0)"
  let ?said = "snd (chat_message any_message sockA (Some ?cd) 1000 empty_chat)"
  note th = broadcast_audience
    [where s = sockA and ud = ?ud and now = 1000 and w = ?w and chan = two_members
       and env = env_defaults and jd = join_req and sv = server0
       and valid = any_message and cd = ?cd and cs = empty_chat]
  note th1 = th [THEN conjunct1]
  note th5 = th [THEN conjunct2, THEN conjunct2, THEN conjunct2, THEN conjunct2, THEN conjunct1]
  note th6 = th [THEN conjunct2, THEN conjunct2, THEN conjunct2, THEN conjunct2, THEN conjunct2,
                 THEN conjunct1]
  have sid: "sock_id sockA = ''sA''" by code_simp
  have wu: "snd (whiteboard_update sockA ?ud 1000 ?w) =
      [Emit (ToOthers ''R'' ''sA'') ''whiteboard-updated''
         (PWhiteboardUpdated ''R'' [mk_element ''e1''] ''{}'' ''{}'' 7 ''A'' ''sA'' 1)]"
    by code_simp
  have jr: "map em_event ?joined = [''user-left'', ''user-joined'', ''user-online'', ''room-joined'']"
    by code_simp
  have len: "length ?joined = 4"
    using arg_cong [OF jr, of length] by simp
  then have mem: "?joined ! 1 \<in> set ?joined" by (intro nth_mem) simp
  have ev: "em_event (?joined ! 1) = ''user-joined''"
    using arg_cong [OF jr, of "\<lambda>xs. xs ! 1"] len by simp
  have said: "?said = [Emit (ToAll ''chat:R'') ''chat:message''
                         (PChatMessage ''R'' ''A'' ''Ann'' ''hello'' ''t1'')]"
    by code_simp
  have hd1: "hd (snd (whiteboard_update sockA ?ud 1000 ?w)) \<in> set (snd (whiteboard_update sockA ?ud 1000 ?w))"
    and ev1: "em_event (hd (snd (whiteboard_update sockA ?ud 1000 ?w))) = ''whiteboard-updated''"
    by (simp_all only: wu list.sel list.set insertI1 em_event.simps)
  have c1: "''sA'' \<notin> recipients two_members (em_target (hd (snd (whiteboard_update sockA ?ud 1000 ?w))))"
    using bspec [OF th1 hd1] ev1 sid by (simp only: simp_thms)
  have c2: "''sA'' \<notin> recipients two_members (em_target (?joined ! 1))"
    using bspec [OF th5 mem] ev sid by (simp only: simp_thms)
  have hd3: "hd ?said \<in> set ?said" and ev3: "em_event (hd ?said) = ''chat:message''"
    by (simp_all only: said list.sel list.set insertI1 em_event.simps)
  have c3: "recipients two_members (em_target (hd ?said)) = two_members (chat_channel (cd_roomId ?cd))"
    using bspec [OF th6 hd3] ev3 by (simp only: simp_thms)
  have r1: "recipients two_members (em_target (hd (snd (whiteboard_update sockA ?ud 1000 ?w)))) = {''sB''}"
    by (auto simp: wu two_members_def)
  have r3: "two_members (chat_channel (cd_roomId ?cd)) = {''sA'', ''sB''}"
    by (simp add: two_members_def chat_channel_def)
  have ev1': "map em_event (snd (whiteboard_update sockA ?ud 1000 ?w)) = [''whiteboard-updated'']"
    by (simp add: wu)
  show ?thesis
    unfolding chat_req_def
    by (intro conjI ev1' c1 r1 jr c2 said c3 [unfolded r3])
qed

end
